theory Spec2Isabelle
  imports Main "HOL-Library.Word"
begin

section \<open>Strings\<close>

text \<open>
  Go strings are byte sequences; they are modelled as \<open>string\<close> (a list of 8-bit
  characters). \<open>strings.ToLower\<close> of the standard library first scans the string: when
  every byte is below \<open>utf8.RuneSelf\<close> (128), it maps the bytes \<open>A\<close> .. \<open>Z\<close> to \<open>a\<close> ..
  \<open>z\<close> and keeps every other byte; otherwise it returns \<open>Map(unicode.ToLower, s)\<close>, which
  decodes the string and consults the Unicode case tables. That second mapping is a
  parameter of the model, the first argument of \<open>ToLower\<close> and of every function that
  lower-cases a key.
\<close>

type_synonym UnicodeLower = "string \<Rightarrow> string"

definition isASCII :: "string \<Rightarrow> bool" where
  "isASCII s = list_all (\<lambda>c. (of_char c :: nat) < 128) s"

definition toLowerChar :: "char \<Rightarrow> char" where
  "toLowerChar c =
     (let n = (of_char c :: nat) in if 65 \<le> n \<and> n \<le> 90 then char_of (n + 32) else c)"

definition asciiLower :: "string \<Rightarrow> string" where
  "asciiLower s = map toLowerChar s"

definition ToLower :: "UnicodeLower \<Rightarrow> string \<Rightarrow> string" where
  "ToLower u s = (if isASCII s then asciiLower s else u s)"

text \<open>
  \<open>strings.SplitN(s, " ", 2)\<close>: the string is cut at its first space, if it has one.
  \<open>cutSpace\<close> finds that space; the result of \<open>SplitN\<close> has one element when there is no
  space and two otherwise.
\<close>

fun cutSpace :: "string \<Rightarrow> (string \<times> string) option" where
  "cutSpace [] = None"
| "cutSpace (c # cs) =
     (if c = CHR '' '' then Some ([], cs)
      else (case cutSpace cs of None \<Rightarrow> None | Some (a, b) \<Rightarrow> Some (c # a, b)))"

definition SplitN2 :: "string \<Rightarrow> string list" where
  "SplitN2 s = (case cutSpace s of None \<Rightarrow> [s] | Some (a, b) \<Rightarrow> [a, b])"

section \<open>Data model\<close>

subsection \<open>Panics\<close>

text \<open>
  A panic carries an arbitrary value. What matters to the recovery code is whether the
  value implements \<open>runtime.Error\<close> (the run-time faults: nil dereference, index out of
  range, failed type assertion) or not (a string from \<open>panic("...")\<close>, an ordinary
  error value). A function that may panic returns \<open>panic_value + 'a\<close>, \<open>Inl\<close> the panic.
\<close>

datatype runtime_error = NilDereference | IndexOutOfRange | TypeAssertionFailed

datatype panic_value =
    RuntimeError runtime_error
  | PanicString string
  | PanicError string

subsection \<open>Argument descriptors\<close>

text \<open>
  \<open>ArgTypeGuards\<close> is a string type. \<open>ArgInfo\<close> has the fields the two source files
  read; \<open>Choices\<close> is a slice, \<open>None\<close> when nil.
\<close>

type_synonym ArgTypeGuards = string

record ArgInfo =
  TypeGuard :: ArgTypeGuards
  arg_Description :: string
  Required :: bool
  Choices :: "string list option"

text \<open>
  The values of an ordered map are of interface type: a pointer to an \<open>ArgInfo\<close>, a nil
  pointer of that type, or a value of some other type.
\<close>

datatype iface = ArgInfoPtr ArgInfo | NilArgInfoPtr | OtherValue

text \<open>
  An ordered map (library \<open>orderedmap\<close>) is its entries in insertion order; \<open>Keys\<close>
  lists the keys, \<open>Get\<close> looks one up.
\<close>

type_synonym OrderedMap = "(string \<times> iface) list"

definition Keys :: "OrderedMap \<Rightarrow> string list" where
  "Keys m = map fst m"

definition Get :: "OrderedMap \<Rightarrow> string \<Rightarrow> iface option" where
  "Get m k = map_of m k"

subsection \<open>Commands\<close>

record CommandInfo =
  Aliases :: "string list"
  Arguments :: "OrderedMap option"
  Description :: string
  Group :: string
  ParentID :: string
  Public :: bool
  IsTyping :: bool
  IsParent :: bool
  IsChild :: bool
  Trigger :: string

text \<open>
  A handler is a function value; it is identified by a number, and \<open>None\<close> is the nil
  function. What a handler does when called is given by the environment (below).
\<close>

type_synonym BotFunction = "nat option"

record Command =
  Info :: CommandInfo
  Function :: BotFunction

text \<open>The zero value of \<open>CommandInfo\<close>, the base of a composite literal that sets some fields.\<close>

definition zeroCommandInfo :: CommandInfo where
  "zeroCommandInfo =
     \<lparr>Aliases = [], Arguments = None, Description = [], Group = [], ParentID = [],
      Public = False, IsTyping = False, IsParent = False, IsChild = False, Trigger = []\<rparr>"

subsection \<open>External command schemas\<close>

text \<open>
  The types of the \<open>discordgo\<close> library, with the fields the source sets.
  \<open>ApplicationCommandOptionType\<close> is a \<open>uint8\<close>; the constants are the library's.
  Slices of pointers are lists of options (\<open>None\<close> a nil entry); a nil slice is \<open>None\<close>.
\<close>

type_synonym ApplicationCommandOptionType = "8 word"

definition ApplicationCommandOptionSubCommand :: ApplicationCommandOptionType where
  "ApplicationCommandOptionSubCommand = 1"
definition ApplicationCommandOptionSubCommandGroup :: ApplicationCommandOptionType where
  "ApplicationCommandOptionSubCommandGroup = 2"
definition ApplicationCommandOptionString :: ApplicationCommandOptionType where
  "ApplicationCommandOptionString = 3"
definition ApplicationCommandOptionInteger :: ApplicationCommandOptionType where
  "ApplicationCommandOptionInteger = 4"
definition ApplicationCommandOptionBoolean :: ApplicationCommandOptionType where
  "ApplicationCommandOptionBoolean = 5"
definition ApplicationCommandOptionUser :: ApplicationCommandOptionType where
  "ApplicationCommandOptionUser = 6"
definition ApplicationCommandOptionChannel :: ApplicationCommandOptionType where
  "ApplicationCommandOptionChannel = 7"
definition ApplicationCommandOptionRole :: ApplicationCommandOptionType where
  "ApplicationCommandOptionRole = 8"

record ApplicationCommandOptionChoice =
  choice_Name :: string
  choice_Value :: string

record ApplicationCommandOption =
  opt_Type :: ApplicationCommandOptionType
  opt_Name :: string
  opt_Description :: string
  opt_Required :: bool
  opt_Choices :: "ApplicationCommandOptionChoice list option"

record ApplicationCommand =
  cmd_Name :: string
  cmd_Description :: string
  Options :: "ApplicationCommandOption option list option"

subsection \<open>The registry\<close>

text \<open>
  The package-level variables. The inner map of \<open>childCommands\<close> is kept as the list of
  its entries (keys distinct) in the order in which \<open>range\<close> visits them; Go leaves that
  order unspecified, and the theorems below hold for every list. \<open>commandsGC\<close> is a Go
  \<open>int\<close>, 64 bits wide, compared as a signed number.
\<close>

record Registry =
  commands :: "string \<rightharpoonup> Command"
  childCommands :: "string \<rightharpoonup> (string \<times> Command) list"
  commandAliases :: "string \<rightharpoonup> string"
  slashCommands :: "string \<rightharpoonup> ApplicationCommand"
  commandsGC :: "64 word"

definition emptyRegistry :: Registry where
  "emptyRegistry =
     \<lparr>commands = Map.empty, childCommands = Map.empty, commandAliases = Map.empty,
      slashCommands = Map.empty, commandsGC = 0\<rparr>"

section \<open>Registration\<close>

text \<open>
  The loop of \<open>AddCommand\<close> over the aliases. The presence check reads the table at the
  alias as written; the store goes to the lower-cased alias and holds the trigger as
  written. The second component lists the aliases that were logged as already registered
  and skipped.
\<close>

fun addAliases ::
  "UnicodeLower \<Rightarrow> string \<Rightarrow> string list \<Rightarrow> (string \<rightharpoonup> string) \<times> string list
   \<Rightarrow> (string \<rightharpoonup> string) \<times> string list" where
  "addAliases u trig [] (m, lg) = (m, lg)"
| "addAliases u trig (alias # rest) (m, lg) =
     (if m alias \<noteq> None then addAliases u trig rest (m, lg @ [alias])
      else addAliases u trig rest (m(ToLower u alias \<mapsto> trig), lg))"

text \<open>
  \<open>AddCommand\<close> returns the registry and the aliases reported as already registered.
  The trigger is appended to the alias list before the command is built, so the stored
  \<open>Info\<close> carries it.
\<close>

definition AddCommand ::
  "UnicodeLower \<Rightarrow> CommandInfo \<Rightarrow> BotFunction \<Rightarrow> Registry \<Rightarrow> Registry \<times> string list" where
  "AddCommand u info function r =
     (let info' = info\<lparr>Aliases := Aliases info @ [Trigger info]\<rparr>;
          command = \<lparr>Info = info', Function = function\<rparr>;
          (al, lg) = addAliases u (Trigger info') (Aliases info') (commandAliases r, [])
      in (r\<lparr>commandAliases := al,
            commands := (commands r)(ToLower u (Trigger info') \<mapsto> command)\<rparr>, lg))"

text \<open>
  The lookup of \<open>commandHandler\<close>, \<open>commands[commandAliases[*trigger]]\<close>: a missing alias
  gives the empty string, which is then looked up in \<open>commands\<close>.
\<close>

definition aliasTarget :: "Registry \<Rightarrow> string \<Rightarrow> string" where
  "aliasTarget r t = (case commandAliases r t of None \<Rightarrow> [] | Some c \<Rightarrow> c)"

definition lookupCommand :: "Registry \<Rightarrow> string \<Rightarrow> Command option" where
  "lookupCommand r t = commands r (aliasTarget r t)"

section \<open>Schema synthesis\<close>

text \<open>
  The constants \<open>Int\<close>, \<open>String\<close>, ... of type \<open>ArgTypeGuards\<close> are declared outside the
  two source files. Their values are a parameter of the model: a record with one field
  for each constant that the source mentions.
\<close>

record TypeGuardConsts =
  Int_tag :: ArgTypeGuards
  String_tag :: ArgTypeGuards
  Channel_tag :: ArgTypeGuards
  User_tag :: ArgTypeGuards
  Role_tag :: ArgTypeGuards
  Boolean_tag :: ArgTypeGuards
  SubCmd_tag :: ArgTypeGuards
  SubCmdGrp_tag :: ArgTypeGuards

text \<open>The table \<open>applicationCommandTypes\<close>, a map literal with the eight constants as keys.\<close>

definition applicationCommandTypes ::
  "TypeGuardConsts \<Rightarrow> ArgTypeGuards \<rightharpoonup> ApplicationCommandOptionType" where
  "applicationCommandTypes c =
     map_of
       [(Int_tag c, ApplicationCommandOptionInteger),
        (String_tag c, ApplicationCommandOptionString),
        (Channel_tag c, ApplicationCommandOptionChannel),
        (User_tag c, ApplicationCommandOptionUser),
        (Role_tag c, ApplicationCommandOptionRole),
        (Boolean_tag c, ApplicationCommandOptionBoolean),
        (SubCmd_tag c, ApplicationCommandOptionSubCommand),
        (SubCmdGrp_tag c, ApplicationCommandOptionSubCommandGroup)]"

text \<open>
  A Go map literal with two equal constant keys does not compile, so the eight constants
  are pairwise distinct in every program that builds.
\<close>

definition distinctConsts :: "TypeGuardConsts \<Rightarrow> bool" where
  "distinctConsts c =
     distinct [Int_tag c, String_tag c, Channel_tag c, User_tag c, Role_tag c,
               Boolean_tag c, SubCmd_tag c, SubCmdGrp_tag c]"

text \<open>
  The choice of \<open>sType\<close> in \<open>createApplicationCommandStruct\<close>: the table's entry for the
  descriptor's tag and, when there is none, \<open>applicationCommandTypes["String"]\<close>, the
  table read at the string literal \<open>String\<close>; reading a Go map at a missing key gives the
  zero value.
\<close>

definition sType :: "TypeGuardConsts \<Rightarrow> ArgTypeGuards \<Rightarrow> ApplicationCommandOptionType" where
  "sType c tg =
     (case applicationCommandTypes c tg of
        Some val \<Rightarrow> val
      | None \<Rightarrow> (case applicationCommandTypes c ''String'' of Some val \<Rightarrow> val | None \<Rightarrow> 0))"

text \<open>
  \<open>v.(*ArgInfo)\<close> followed by a field read: a value that is not an \<open>*ArgInfo\<close> (also the
  nil interface that \<open>Get\<close> returns for a missing key) fails the type assertion, and a nil
  \<open>*ArgInfo\<close> fails at the field read.
\<close>

fun asArgInfo :: "iface option \<Rightarrow> panic_value + ArgInfo" where
  "asArgInfo (Some (ArgInfoPtr a)) = Inr a"
| "asArgInfo (Some NilArgInfoPtr) = Inl (RuntimeError NilDereference)"
| "asArgInfo (Some OtherValue) = Inl (RuntimeError TypeAssertionFailed)"
| "asArgInfo None = Inl (RuntimeError TypeAssertionFailed)"

definition optionStruct :: "TypeGuardConsts \<Rightarrow> string \<Rightarrow> ArgInfo \<Rightarrow> ApplicationCommandOption" where
  "optionStruct c k vv =
     \<lparr>opt_Type = sType c (TypeGuard vv),
      opt_Name = k,
      opt_Description = arg_Description vv,
      opt_Required = Required vv,
      opt_Choices =
        (case Choices vv of
           None \<Rightarrow> None
         | Some ks \<Rightarrow> Some (map (\<lambda>k. \<lparr>choice_Name = k, choice_Value = k\<rparr>) ks))\<rparr>"

text \<open>The loop over \<open>info.Arguments.Keys()\<close>; the first failing key ends it with its panic.\<close>

fun optionStructs ::
  "TypeGuardConsts \<Rightarrow> OrderedMap \<Rightarrow> string list
   \<Rightarrow> panic_value + ApplicationCommandOption option list" where
  "optionStructs c om [] = Inr []"
| "optionStructs c om (k # ks) =
     (case asArgInfo (Get om k) of
        Inl p \<Rightarrow> Inl p
      | Inr vv \<Rightarrow>
          (case optionStructs c om ks of
             Inl p \<Rightarrow> Inl p
           | Inr os \<Rightarrow> Inr (Some (optionStruct c k vv) # os)))"

definition createApplicationCommandStruct ::
  "TypeGuardConsts \<Rightarrow> CommandInfo \<Rightarrow> panic_value + ApplicationCommand" where
  "createApplicationCommandStruct c info =
     (case Arguments info of
        None \<Rightarrow>
          Inr \<lparr>cmd_Name = Trigger info, cmd_Description = Description info, Options = None\<rparr>
      | Some om \<Rightarrow>
          if length (Keys om) < 1
          then Inr \<lparr>cmd_Name = Trigger info, cmd_Description = Description info, Options = None\<rparr>
          else (case optionStructs c om (Keys om) of
                  Inl p \<Rightarrow> Inl p
                | Inr os \<Rightarrow>
                    Inr \<lparr>cmd_Name = Trigger info, cmd_Description = Description info,
                         Options = Some os\<rparr>))"

text \<open>
  The condition of \<open>createChatInputSubCmdStruct\<close> on a child,
  \<open>v.Info.Arguments.Get(v.Info.Arguments.Keys()[0])\<close> read as an \<open>*ArgInfo\<close>: calling
  \<open>Keys\<close> on a nil ordered map dereferences nil (\<open>createApplicationCommandStruct\<close> guards
  its own call with a nil check), and indexing an empty key list is out of range.
\<close>

definition firstTypeGuard :: "CommandInfo \<Rightarrow> panic_value + ArgTypeGuards" where
  "firstTypeGuard info =
     (case Arguments info of
        None \<Rightarrow> Inl (RuntimeError NilDereference)
      | Some om \<Rightarrow>
          (case Keys om of
             [] \<Rightarrow> Inl (RuntimeError IndexOutOfRange)
           | k # _ \<Rightarrow>
               (case asArgInfo (Get om k) of
                  Inl p \<Rightarrow> Inl p
                | Inr ar \<Rightarrow> Inr (TypeGuard ar))))"

text \<open>
  The method \<open>CreateAppOptSt\<close> of \<open>CommandInfo\<close> is declared outside the two source
  files; it is a parameter, a function that panics or returns a pointer (possibly nil).
  The loop over the children writes at \<open>currentPos\<close> and advances it; a write past the
  end of the slice would be an index panic.
\<close>

type_synonym CreateAppOptSt = "CommandInfo \<Rightarrow> panic_value + ApplicationCommandOption option"

fun fillOptions ::
  "TypeGuardConsts \<Rightarrow> CreateAppOptSt \<Rightarrow> (string \<times> Command) list
   \<Rightarrow> ApplicationCommandOption option list \<times> nat
   \<Rightarrow> panic_value + ApplicationCommandOption option list \<times> nat" where
  "fillOptions c create [] (os, currentPos) = Inr (os, currentPos)"
| "fillOptions c create ((k, v) # rest) (os, currentPos) =
     (case firstTypeGuard (Info v) of
        Inl p \<Rightarrow> Inl p
      | Inr tg \<Rightarrow>
          if tg = SubCmdGrp_tag c then fillOptions c create rest (os, currentPos)
          else (case create (Info v) of
                  Inl p \<Rightarrow> Inl p
                | Inr opt \<Rightarrow>
                    if currentPos < length os
                    then fillOptions c create rest (os[currentPos := opt], currentPos + 1)
                    else Inl (RuntimeError IndexOutOfRange)))"

definition createChatInputSubCmdStruct ::
  "TypeGuardConsts \<Rightarrow> CreateAppOptSt \<Rightarrow> CommandInfo \<Rightarrow> (string \<times> Command) list
   \<Rightarrow> panic_value + ApplicationCommand" where
  "createChatInputSubCmdStruct c create info childCmds =
     (case fillOptions c create childCmds (replicate (length childCmds) None, 0) of
        Inl p \<Rightarrow> Inl p
      | Inr (os, currentPos) \<Rightarrow>
          Inr \<lparr>cmd_Name = Trigger info, cmd_Description = Description info,
               Options = Some os\<rparr>)"

text \<open>
  The children that the loop passes over: those whose first descriptor carries the tag
  \<open>SubCmdGrp\<close>.
\<close>

definition skippedChild :: "TypeGuardConsts \<Rightarrow> string \<times> Command \<Rightarrow> bool" where
  "skippedChild c kv = (firstTypeGuard (Info (snd kv)) = Inr (SubCmdGrp_tag c))"

section \<open>Child and slash-command registration\<close>

text \<open>Storing into the inner child map: an existing key keeps its place, a new one is added.\<close>

fun putChild :: "string \<Rightarrow> Command \<Rightarrow> (string \<times> Command) list \<Rightarrow> (string \<times> Command) list" where
  "putChild k v [] = [(k, v)]"
| "putChild k v ((k', v') # rest) =
     (if k' = k then (k, v) # rest else (k', v') # putChild k v rest)"

text \<open>\<open>childCommands[p]\<close> as a map value: the nil map of a missing parent has no entries.\<close>

definition childrenOf :: "Registry \<Rightarrow> string \<Rightarrow> (string \<times> Command) list" where
  "childrenOf r p = (case childCommands r p of None \<Rightarrow> [] | Some kids \<Rightarrow> kids)"

definition AddChildCommand ::
  "UnicodeLower \<Rightarrow> CommandInfo \<Rightarrow> BotFunction \<Rightarrow> Registry \<Rightarrow> Registry" where
  "AddChildCommand u info function r =
     (let command = \<lparr>Info = info, Function = function\<rparr>;
          parentID = ToLower u (ParentID info)
      in r\<lparr>childCommands :=
             (childCommands r)(parentID \<mapsto> putChild (Trigger info) command (childrenOf r parentID))\<rparr>)"

text \<open>
  The children of a parent: the entries that \<open>AddChildCommand\<close> has stored for its
  identifier, which it keeps at the lower-cased identifier.
\<close>

definition registeredChildren :: "UnicodeLower \<Rightarrow> Registry \<Rightarrow> string \<Rightarrow> (string \<times> Command) list" where
  "registeredChildren u r parent = childrenOf r (ToLower u parent)"

definition AddSlashCommand ::
  "UnicodeLower \<Rightarrow> TypeGuardConsts \<Rightarrow> CreateAppOptSt \<Rightarrow> CommandInfo \<Rightarrow> Registry
   \<Rightarrow> panic_value + Registry" where
  "AddSlashCommand u c create info r =
     (if \<not> IsParent info \<or> \<not> IsChild info
      then (case createApplicationCommandStruct c info of
              Inl p \<Rightarrow> Inl p
            | Inr s \<Rightarrow> Inr (r\<lparr>slashCommands := (slashCommands r)(ToLower u (Trigger info) \<mapsto> s)\<rparr>))
      else if IsParent info
      then (case createChatInputSubCmdStruct c create info (childrenOf r (Trigger info)) of
              Inl p \<Rightarrow> Inl p
            | Inr s \<Rightarrow> Inr (r\<lparr>slashCommands := (slashCommands r)(ToLower u (Trigger info) \<mapsto> s)\<rparr>))
      else Inr r)"

section \<open>Events and collaborators\<close>

text \<open>
  The parts of the guild, message and interaction objects that the dispatch code reads.
  \<open>int_Member\<close> is the user identifier behind \<open>i.Member.User.ID\<close>, \<open>None\<close> when the
  member pointer is nil. The parsed-argument container is produced by the argument
  parser only; it is kept as a list of names with their values.
\<close>

record Guild =
  guild_ID :: string
  ResponseChannelID :: string

record Message =
  msg_ID :: string
  msg_ChannelID :: string
  msg_GuildID :: string
  msg_Author :: string
  msg_Content :: string

record Interaction =
  int_GuildID :: string
  int_ChannelID :: string
  int_Member :: "string option"
  CustomID :: string

type_synonym Arguments = "(string \<times> string) list"

record CmdContext =
  ctx_Guild :: Guild
  Cmd :: CommandInfo
  Args :: "Arguments option"
  ctx_Message :: Message

record InteractionHandler =
  ih_Info :: string
  ih_Function :: "nat option"

definition zeroInteractionHandler :: InteractionHandler where
  "zeroInteractionHandler = \<lparr>ih_Info = [], ih_Function = None\<rparr>"

record InteractionCtx =
  ictx_Info :: string
  ictx_Interaction :: Interaction

text \<open>What a run does to the outside, in order.\<close>

datatype event =
    LogWarning string
  | LogError string
  | ErrorReport string string string panic_value
  | MessageSend string string
  | Sleep nat
  | MessageDelete string string
  | ResponseEdit string
  | Respond string
  | ReactionAdd string string
  | SendReply string string
  | Typing string
  | Call nat CmdContext
  | CallInteraction nat InteractionCtx
  | FreeOSMemory

text \<open>
  The collaborators, as the answers they give: the session's channel lookups (\<open>None\<close> an
  error), the bot's own user identifier, the guild lookup, \<open>ExtractCommand\<close> (two string
  pointers, \<open>None\<close> nil), \<open>IsAdmin\<close>, \<open>ParseArguments\<close>, what each handler does when
  called (\<open>None\<close> it returns, \<open>Some p\<close> it panics with \<open>p\<close>), and the outbound calls with
  their results (a message pointer and an error, each possibly nil).
\<close>

record Env =
  StateChannel :: "string \<Rightarrow> string option"
  SessionChannel :: "string \<Rightarrow> string option"
  selfID :: string
  GetGuild :: "string \<Rightarrow> Guild"
  ExtractCommand :: "Guild \<Rightarrow> string \<Rightarrow> string option \<times> string option"
  IsAdmin :: "string \<Rightarrow> bool"
  ParseArguments :: "string \<Rightarrow> OrderedMap option \<Rightarrow> Arguments"
  handler :: "nat \<Rightarrow> CmdContext \<Rightarrow> panic_value option"
  interactionHandler :: "nat \<Rightarrow> InteractionCtx \<Rightarrow> panic_value option"
  ChannelMessageSend :: "string \<Rightarrow> string \<Rightarrow> Message option \<times> string option"
  ChannelMessageDelete :: "string \<Rightarrow> string \<Rightarrow> string option"
  InteractionResponseEdit :: "Interaction \<Rightarrow> string \<Rightarrow> Message option \<times> string option"
  InteractionRespond :: "Interaction \<Rightarrow> string \<Rightarrow> string option"

section \<open>Failure recovery\<close>

text \<open>\<open>r.(runtime.Error)\<close>: the assertion panics on a value that is no run-time error.\<close>

fun asRuntimeError :: "panic_value \<Rightarrow> panic_value + runtime_error" where
  "asRuntimeError (RuntimeError e) = Inr e"
| "asRuntimeError (PanicString s) = Inl (RuntimeError TypeAssertionFailed)"
| "asRuntimeError (PanicError s) = Inl (RuntimeError TypeAssertionFailed)"

text \<open>
  Modelled from the spec: \<open>SendErrorReport\<close> is declared outside the two source files.
  It synthesizes an error report addressed to the administrators, with the server,
  channel and user identifiers and the failure value, and sends it.
\<close>

definition SendErrorReport :: "string \<Rightarrow> string \<Rightarrow> string \<Rightarrow> panic_value \<Rightarrow> event list" where
  "SendErrorReport gID cId uId r = [ErrorReport gID cId uId r]"

text \<open>
  \<open>handleCommandError\<close>. The last argument is what \<open>recover()\<close> returns: the panic value
  when the function runs as the deferred call of a panicking function, nil otherwise.
  The result is the events and whether the function itself returns or panics.
\<close>

definition handleCommandError ::
  "Env \<Rightarrow> string \<Rightarrow> string \<Rightarrow> string \<Rightarrow> panic_value option
   \<Rightarrow> event list \<times> (panic_value + unit)" where
  "handleCommandError env gID cId uId r =
     (case r of
        None \<Rightarrow> ([], Inr ())
      | Some pv \<Rightarrow>
          let warned = [LogWarning ''Recovering from panic: %s'',
                        LogWarning ''Sending Error report to admins'']
          in (case asRuntimeError pv of
                Inl p \<Rightarrow> (warned, Inl p)
              | Inr e \<Rightarrow>
                  let (message, err) = ChannelMessageSend env cId ''Error!'';
                      sent = warned @ SendErrorReport gID cId uId pv @ [MessageSend cId ''Error!'']
                             @ (if err \<noteq> None then [LogError ''err sending message %s''] else [])
                             @ [Sleep 5]
                  in (case message of
                        None \<Rightarrow> (sent, Inl (RuntimeError NilDereference))
                      | Some m \<Rightarrow> (sent @ [MessageDelete cId (msg_ID m)], Inr ()))))"

text \<open>
  The end of \<open>handleInteractionError\<close>: \<open>message.ID\<close> is read for the delete call.
\<close>

definition deleteNotice ::
  "Env \<Rightarrow> Interaction \<Rightarrow> Message option \<Rightarrow> event list \<Rightarrow> event list \<times> (panic_value + unit)" where
  "deleteNotice env i message sofar =
     (case message of
        None \<Rightarrow> (sofar, Inl (RuntimeError NilDereference))
      | Some m \<Rightarrow>
          (sofar @ [MessageDelete (int_ChannelID i) (msg_ID m)]
                @ (if ChannelMessageDelete env (int_ChannelID i) (msg_ID m) \<noteq> None
                   then [LogError ''unable to delete message %s''] else []),
           Inr ()))"

text \<open>
  \<open>handleInteractionError\<close>. The arguments of \<open>SendErrorReport\<close> are evaluated left to
  right, \<open>i.Member.User.ID\<close> before \<open>r.(runtime.Error)\<close>. After a failed edit the
  result of \<open>InteractionRespond\<close> is logged with \<open>err.Error()\<close> without a nil check.
\<close>

definition handleInteractionError ::
  "Env \<Rightarrow> Interaction \<Rightarrow> panic_value option \<Rightarrow> event list \<times> (panic_value + unit)" where
  "handleInteractionError env i r =
     (case r of
        None \<Rightarrow> ([], Inr ())
      | Some pv \<Rightarrow>
          let warned = [LogWarning ''Recovering from panic: %s'',
                        LogWarning ''Sending Error report to admins'']
          in (case int_Member i of
                None \<Rightarrow> (warned, Inl (RuntimeError NilDereference))
              | Some uId \<Rightarrow>
                  (case asRuntimeError pv of
                     Inl p \<Rightarrow> (warned, Inl p)
                   | Inr e \<Rightarrow>
                       let (message, err) = InteractionResponseEdit env i ''error executing command'';
                           edited = warned @ SendErrorReport (int_GuildID i) (int_ChannelID i) uId pv
                                    @ [ResponseEdit ''error executing command'']
                       in (case err of
                             None \<Rightarrow> deleteNotice env i message edited
                           | Some e1 \<Rightarrow>
                               let responded = edited @ [LogError ''err sending message %s'',
                                                         Respond ''error executing command'']
                               in (case InteractionRespond env i ''error executing command'' of
                                     None \<Rightarrow> (responded, Inl (RuntimeError NilDereference))
                                   | Some e2 \<Rightarrow>
                                       deleteNotice env i message
                                         (responded @ [LogError ''err responding to interaction %s'']))))))"

section \<open>Dispatch\<close>

text \<open>Calling a function value: the nil function panics, any other runs its handler.\<close>

definition invoke :: "Env \<Rightarrow> BotFunction \<Rightarrow> CmdContext \<Rightarrow> event list \<times> (panic_value + unit)" where
  "invoke env f ctx =
     (case f of
        None \<Rightarrow> ([], Inl (RuntimeError NilDereference))
      | Some h \<Rightarrow> ([Call h ctx], (case handler env h ctx of None \<Rightarrow> Inr () | Some p \<Rightarrow> Inl p)))"

definition invokeInteraction ::
  "Env \<Rightarrow> nat option \<Rightarrow> InteractionCtx \<Rightarrow> event list \<times> (panic_value + unit)" where
  "invokeInteraction env f ctx =
     (case f of
        None \<Rightarrow> ([], Inl (RuntimeError NilDereference))
      | Some h \<Rightarrow>
          ([CallInteraction h ctx],
           (case interactionHandler env h ctx of None \<Rightarrow> Inr () | Some p \<Rightarrow> Inl p)))"

text \<open>\<open>childCommands[parent][token]\<close>: the nil map of a missing parent has no entry.\<close>

definition childLookup :: "Registry \<Rightarrow> string \<Rightarrow> string \<Rightarrow> Command option" where
  "childLookup r parent tok = map_of (childrenOf r parent) tok"

definition handleChildCommand ::
  "Env \<Rightarrow> Registry \<Rightarrow> string \<Rightarrow> Command \<Rightarrow> Message \<Rightarrow> Guild
   \<Rightarrow> event list \<times> (panic_value + unit)" where
  "handleChildCommand env r argString command message guild =
     (case SplitN2 argString of
        [] \<Rightarrow> ([], Inl (RuntimeError IndexOutOfRange))
      | first # others \<Rightarrow>
          (case childLookup r (Trigger (Info command)) first of
             None \<Rightarrow>
               invoke env (Function command)
                 \<lparr>ctx_Guild = guild, Cmd = Info command, Args = None, ctx_Message = message\<rparr>
           | Some childCmd \<Rightarrow>
               (case others of
                  [] \<Rightarrow>
                    invoke env (Function childCmd)
                      \<lparr>ctx_Guild = guild, Cmd = Info childCmd,
                       Args = Some (ParseArguments env [] (Arguments (Info childCmd))),
                       ctx_Message = message\<rparr>
                | rest # _ \<Rightarrow>
                    invoke env (Function childCmd)
                      \<lparr>ctx_Guild = guild, Cmd = Info childCmd,
                       Args = Some (ParseArguments env rest (Arguments (Info childCmd))),
                       ctx_Message = message\<rparr>)))"

text \<open>
  The part of \<open>commandHandler\<close> that runs after the recovery call has been deferred.
  \<open>*argString\<close> is a pointer dereference. The counter is touched only when the handler
  of a command that is no parent has returned.
\<close>

definition commandBody ::
  "Env \<Rightarrow> Registry \<Rightarrow> Command \<Rightarrow> string option \<Rightarrow> Message \<Rightarrow> Guild
   \<Rightarrow> event list \<times> (panic_value + unit) \<times> Registry" where
  "commandBody env r command argString message g =
     (case argString of
        None \<Rightarrow> ([], Inl (RuntimeError NilDereference), r)
      | Some a \<Rightarrow>
          if IsParent (Info command)
          then (let (evs, res) = handleChildCommand env r a command message g in (evs, res, r))
          else (case invoke env (Function command)
                       \<lparr>ctx_Guild = g, Cmd = Info command,
                        Args = Some (ParseArguments env a (Arguments (Info command))),
                        ctx_Message = message\<rparr> of
                  (evs, Inl p) \<Rightarrow> (evs, Inl p, r)
                | (evs, Inr u) \<Rightarrow>
                    if commandsGC r = 25 \<and> 25 <s commandsGC r
                    then (evs @ [FreeOSMemory], Inr (), r\<lparr>commandsGC := 0\<rparr>)
                    else (evs, Inr (), r\<lparr>commandsGC := commandsGC r + 1\<rparr>)))"

text \<open>
  \<open>commandHandler\<close>: the events, whether the function returns or panics, and the
  registry afterwards. The deferred \<open>handleCommandError\<close> sees the panic of the body;
  what it returns is what \<open>commandHandler\<close> returns.
\<close>

definition commandHandler ::
  "Env \<Rightarrow> Message \<Rightarrow> Registry \<Rightarrow> event list \<times> (panic_value + unit) \<times> Registry" where
  "commandHandler env message r =
     (case (case StateChannel env (msg_ChannelID message) of
              Some ch \<Rightarrow> Some ch
            | None \<Rightarrow> SessionChannel env (msg_ChannelID message)) of
        None \<Rightarrow> ([], Inr (), r)
      | Some channelID \<Rightarrow>
          if msg_Author message = selfID env then ([], Inr (), r)
          else
            let g = GetGuild env (msg_GuildID message) in
            (case ExtractCommand env g (msg_Content message) of
               (None, argString) \<Rightarrow> ([], Inr (), r)
             | (Some trigger, argString) \<Rightarrow>
                 (case lookupCommand r trigger of
                    None \<Rightarrow>
                      (LogError ''Command was not found''
                         # (if IsAdmin env (msg_Author message)
                            then [ReactionAdd (msg_ChannelID message) (msg_ID message),
                                  SendReply (msg_ChannelID message)
                                    ''<:redtick:861413502991073281> Error! Command not found!'']
                            else []),
                       Inr (), r)
                  | Some command \<Rightarrow>
                      let typing = (if IsTyping (Info command) \<and> ResponseChannelID g = []
                                    then [Typing (msg_ChannelID message)] else []);
                          (evs, res, r') = commandBody env r command argString message g;
                          (evs', res') = handleCommandError env (guild_ID g) channelID
                                           (msg_Author message)
                                           (case res of Inl p \<Rightarrow> Some p | Inr u \<Rightarrow> None)
                      in (typing @ evs @ evs', res', r'))))"

text \<open>
  \<open>AddInteractHandler\<close> and \<open>handleMessageComponents\<close>, over the table
  \<open>interactionHandlers\<close>. When the identifier is not registered, \<open>handleInteractionError\<close>
  is called directly, not deferred, so its \<open>recover()\<close> returns nil; the function then
  goes on with the zero handler. The interaction is a component interaction, as
  \<open>handleInteraction\<close> has checked, so reading its \<open>CustomID\<close> succeeds.
\<close>

definition AddInteractHandler ::
  "UnicodeLower \<Rightarrow> string \<Rightarrow> nat option \<Rightarrow> (string \<rightharpoonup> InteractionHandler)
   \<Rightarrow> (string \<rightharpoonup> InteractionHandler)" where
  "AddInteractHandler u info function hs =
     hs(ToLower u info \<mapsto> \<lparr>ih_Info = info, ih_Function = function\<rparr>)"

definition runComponent ::
  "Env \<Rightarrow> InteractionHandler \<Rightarrow> Interaction \<Rightarrow> event list \<times> (panic_value + unit)" where
  "runComponent env h i =
     (let (evs, res) = invokeInteraction env (ih_Function h)
                         \<lparr>ictx_Info = ih_Info h, ictx_Interaction = i\<rparr>;
          (evs', res') = handleInteractionError env i (case res of Inl p \<Rightarrow> Some p | Inr u \<Rightarrow> None)
      in (evs @ evs', res'))"

definition handleMessageComponents ::
  "Env \<Rightarrow> (string \<rightharpoonup> InteractionHandler) \<Rightarrow> Interaction \<Rightarrow> event list \<times> (panic_value + unit)" where
  "handleMessageComponents env hs i =
     (case hs (CustomID i) of
        Some h \<Rightarrow> runComponent env h i
      | None \<Rightarrow>
          (case handleInteractionError env i None of
             (evs0, Inl p) \<Rightarrow> (evs0, Inl p)
           | (evs0, Inr u) \<Rightarrow>
               (let (evs, res) = runComponent env zeroInteractionHandler i in (evs0 @ evs, res))))"

section \<open>Example inputs\<close>

text \<open>
  Concrete collaborators and registrations on which the theorems are run. In
  \<open>exampleEnv\<close> every channel is known, \<open>ExtractCommand\<close> takes the text up to the first
  space, lower-cased, as the trigger and the text after it as the remainder, nobody is an
  administrator, every outbound call succeeds and every handler has the given outcome.
\<close>

definition exampleEnv :: "(nat \<Rightarrow> panic_value option) \<Rightarrow> Env" where
  "exampleEnv outcome =
     \<lparr>StateChannel = (\<lambda>c. Some c),
      SessionChannel = (\<lambda>c. None),
      selfID = ''bot'',
      GetGuild = (\<lambda>gid. \<lparr>guild_ID = gid, ResponseChannelID = []\<rparr>),
      ExtractCommand = (\<lambda>g content.
         case cutSpace content of
           None \<Rightarrow> (Some (asciiLower content), Some [])
         | Some (t, rest) \<Rightarrow> (Some (asciiLower t), Some rest)),
      IsAdmin = (\<lambda>u. False),
      ParseArguments = (\<lambda>s d. [(''text'', s)]),
      handler = (\<lambda>h ctx. outcome h),
      interactionHandler = (\<lambda>h ctx. outcome h),
      ChannelMessageSend = (\<lambda>c content.
         (Some \<lparr>msg_ID = ''notice'', msg_ChannelID = c, msg_GuildID = [], msg_Author = ''bot'',
                msg_Content = content\<rparr>, None)),
      ChannelMessageDelete = (\<lambda>c m. None),
      InteractionResponseEdit = (\<lambda>i content.
         (Some \<lparr>msg_ID = ''notice'', msg_ChannelID = int_ChannelID i, msg_GuildID = int_GuildID i,
                msg_Author = ''bot'', msg_Content = content\<rparr>, None)),
      InteractionRespond = (\<lambda>i content. None)\<rparr>"

text \<open>
  The strings of the examples are ASCII, so the Unicode mapping is never consulted on
  them (see \<open>configRegistry_any\<close> and \<open>pingRegistry_any\<close> below); the identity stands in
  for it.
\<close>

definition exampleUnicode :: UnicodeLower where
  "exampleUnicode s = s"

definition textMessage :: "string \<Rightarrow> Message" where
  "textMessage content =
     \<lparr>msg_ID = ''m1'', msg_ChannelID = ''c1'', msg_GuildID = ''g1'', msg_Author = ''u1'',
      msg_Content = content\<rparr>"

definition alwaysPanics :: "panic_value \<Rightarrow> nat \<Rightarrow> panic_value option" where
  "alwaysPanics p h = Some p"

definition alwaysReturns :: "nat \<Rightarrow> panic_value option" where
  "alwaysReturns h = None"

text \<open>
  An instance of the constants of type \<open>ArgTypeGuards\<close>, with lower-case values; the tag
  \<open>time\<close> used below is none of them. \<open>exampleCreate\<close> turns a child into a subcommand
  option.
\<close>

definition exampleConsts :: TypeGuardConsts where
  "exampleConsts =
     \<lparr>Int_tag = ''int'', String_tag = ''string'', Channel_tag = ''channel'', User_tag = ''user'',
      Role_tag = ''role'', Boolean_tag = ''bool'', SubCmd_tag = ''subcmd'',
      SubCmdGrp_tag = ''subcmdgrp''\<rparr>"

definition exampleCreate :: CreateAppOptSt where
  "exampleCreate info =
     Inr (Some \<lparr>opt_Type = ApplicationCommandOptionSubCommand, opt_Name = Trigger info,
                opt_Description = Description info, opt_Required = False, opt_Choices = None\<rparr>)"

definition oneArgument :: "ArgTypeGuards \<Rightarrow> OrderedMap" where
  "oneArgument tg =
     [(''key'', ArgInfoPtr \<lparr>TypeGuard = tg, arg_Description = ''a key'', Required = True,
                            Choices = None\<rparr>)]"

definition configInfo :: "bool \<Rightarrow> CommandInfo" where
  "configInfo child = zeroCommandInfo\<lparr>Trigger := ''config'', IsParent := True, IsChild := child\<rparr>"

definition childInfo :: "string \<Rightarrow> ArgTypeGuards \<Rightarrow> CommandInfo" where
  "childInfo t tg =
     zeroCommandInfo\<lparr>Trigger := t, ParentID := ''config'', IsChild := True,
                      Arguments := Some (oneArgument tg)\<rparr>"

definition configCommand :: Command where
  "configCommand = \<lparr>Info = (configInfo False)\<lparr>Aliases := [''config'']\<rparr>, Function = Some 1\<rparr>"

definition configRegistry :: Registry where
  "configRegistry =
     AddChildCommand exampleUnicode (childInfo ''get'' ''string'') (Some 3)
       (AddChildCommand exampleUnicode (childInfo ''set'' ''string'') (Some 2)
          (fst (AddCommand exampleUnicode (configInfo False) (Some 1) emptyRegistry)))"

text \<open>
  An interaction from the button \<open>btn\<close>, the guild of the example messages, and three
  children: \<open>set\<close> with a string argument, \<open>group\<close> whose first argument is tagged as a
  subcommand group, and \<open>bare\<close> without arguments.
\<close>

definition exampleInteraction :: Interaction where
  "exampleInteraction =
     \<lparr>int_GuildID = ''g1'', int_ChannelID = ''c1'', int_Member = Some ''u1'', CustomID = ''btn''\<rparr>"

definition exampleGuild :: Guild where
  "exampleGuild = \<lparr>guild_ID = ''g1'', ResponseChannelID = []\<rparr>"

definition setCommand :: Command where
  "setCommand = \<lparr>Info = childInfo ''set'' ''string'', Function = Some 2\<rparr>"

definition groupCommand :: Command where
  "groupCommand = \<lparr>Info = childInfo ''group'' ''subcmdgrp'', Function = Some 4\<rparr>"

definition bareCommand :: Command where
  "bareCommand = \<lparr>Info = zeroCommandInfo\<lparr>Trigger := ''bare''\<rparr>, Function = Some 5\<rparr>"



text \<open>
  A parent whose trigger is written \<open>Config\<close>, registered after a command \<open>config\<close> with
  the alias \<open>c\<close>, and a child \<open>set\<close> registered for the parent \<open>Config\<close>.
\<close>

definition upperConfigCommand :: Command where
  "upperConfigCommand =
     \<lparr>Info = zeroCommandInfo\<lparr>Trigger := ''Config'', IsParent := True, Aliases := [''Config'']\<rparr>,
      Function = Some 2\<rparr>"

definition upperSetCommand :: Command where
  "upperSetCommand =
     \<lparr>Info = zeroCommandInfo\<lparr>Trigger := ''set'', ParentID := ''Config'', IsChild := True,
                              Arguments := Some (oneArgument ''string'')\<rparr>,
      Function = Some 3\<rparr>"

definition mixedCaseRegistry :: "UnicodeLower \<Rightarrow> Registry" where
  "mixedCaseRegistry u =
     AddChildCommand u (Info upperSetCommand) (Some 3)
       (fst (AddCommand u (zeroCommandInfo\<lparr>Trigger := ''Config'', IsParent := True\<rparr>) (Some 2)
          (fst (AddCommand u (zeroCommandInfo\<lparr>Trigger := ''config'', Aliases := [''c'']\<rparr>)
                  (Some 1) emptyRegistry))))"

text \<open>A registry with the single command \<open>ping\<close>.\<close>

definition pingRegistry :: Registry where
  "pingRegistry =
     fst (AddCommand exampleUnicode (zeroCommandInfo\<lparr>Trigger := ''ping''\<rparr>) (Some 1) emptyRegistry)"

definition pingCommand :: Command where
  "pingCommand = \<lparr>Info = zeroCommandInfo\<lparr>Trigger := ''ping'', Aliases := [''ping'']\<rparr>,
                  Function = Some 1\<rparr>"

section \<open>Facts about strings\<close>

lemma ascii_examples:
  "isASCII []" "isASCII ''Ban''" "isASCII ''BAN''" "isASCII ''ban''" "isASCII ''b''" "isASCII ''B''"
  "isASCII ''block''" "isASCII ''ping''" "isASCII ''config''" "isASCII ''Config''"
  "isASCII ''c''" "isASCII ''Remind''"
  by code_simp+

lemma asciiLower_examples:
  "asciiLower [] = []"
  "asciiLower ''Ban'' = ''ban''" "asciiLower ''BAN'' = ''ban''" "asciiLower ''ban'' = ''ban''"
  "asciiLower ''b'' = ''b''" "asciiLower ''B'' = ''b''" "asciiLower ''block'' = ''block''"
  "asciiLower ''ping'' = ''ping''" "asciiLower ''config'' = ''config''"
  "asciiLower ''Config'' = ''config''" "asciiLower ''c'' = ''c''"
  "asciiLower ''Remind'' = ''remind''"
  by code_simp+

lemma ToLower_ascii: "isASCII s \<Longrightarrow> ToLower u s = asciiLower s"
  by (simp add: ToLower_def)

lemma ToLower_non_ascii: "\<not> isASCII s \<Longrightarrow> ToLower u s = u s"
  by (simp add: ToLower_def)

lemma ToLower_Nil: "ToLower u [] = []"
  by (simp add: ToLower_ascii ascii_examples asciiLower_examples)

lemma lower_Ban:
  "ToLower u ''Ban'' = ''ban''" "ToLower u ''BAN'' = ''ban''" "ToLower u ''ban'' = ''ban''"
  by (simp_all add: ToLower_ascii ascii_examples asciiLower_examples)

lemma lower_b:
  "ToLower u ''b'' = ''b''" "ToLower u ''B'' = ''b''" "ToLower u ''block'' = ''block''"
  by (simp_all add: ToLower_ascii ascii_examples asciiLower_examples)

lemma lower_ping: "ToLower u ''ping'' = ''ping''"
  by (simp add: ToLower_ascii ascii_examples asciiLower_examples)

lemma lower_config:
  "ToLower u ''config'' = ''config''" "ToLower u ''Config'' = ''config''"
  "ToLower u ''c'' = ''c''" "ToLower u ''Remind'' = ''remind''"
  by (simp_all add: ToLower_ascii ascii_examples asciiLower_examples)

lemma cutSpace_none: "CHR '' '' \<notin> set s \<Longrightarrow> cutSpace s = None"
  by (induction s) auto

lemma cutSpace_some: "CHR '' '' \<notin> set a \<Longrightarrow> cutSpace (a @ CHR '' '' # b) = Some (a, b)"
  by (induction a) auto

lemma SplitN2_none: "CHR '' '' \<notin> set s \<Longrightarrow> SplitN2 s = [s]"
  by (simp add: SplitN2_def cutSpace_none)

lemma SplitN2_some: "CHR '' '' \<notin> set a \<Longrightarrow> SplitN2 (a @ CHR '' '' # b) = [a, b]"
  by (simp add: SplitN2_def cutSpace_some)

section \<open>The example registries, evaluated\<close>

lemma configRegistry_eq:
  "configRegistry =
     \<lparr>commands = [''config'' \<mapsto> configCommand],
      childCommands = [''config'' \<mapsto>
         [(''set'', \<lparr>Info = childInfo ''set'' ''string'', Function = Some 2\<rparr>),
          (''get'', \<lparr>Info = childInfo ''get'' ''string'', Function = Some 3\<rparr>)]],
      commandAliases = [''config'' \<mapsto> ''config''],
      slashCommands = Map.empty, commandsGC = 0\<rparr>"
  by (simp add: configRegistry_def AddChildCommand_def AddCommand_def emptyRegistry_def
      configInfo_def childInfo_def zeroCommandInfo_def lower_config childrenOf_def configCommand_def
      Let_def)

lemma pingRegistry_eq:
  "pingRegistry = \<lparr>commands = [''ping'' \<mapsto> pingCommand], childCommands = Map.empty,
                    commandAliases = [''ping'' \<mapsto> ''ping''], slashCommands = Map.empty,
                    commandsGC = 0\<rparr>"
  by (simp add: pingRegistry_def pingCommand_def AddCommand_def zeroCommandInfo_def
      emptyRegistry_def lower_ping)


text \<open>Registration builds the same two registries whatever the Unicode mapping is.\<close>

lemma configRegistry_any:
  "AddChildCommand u (childInfo ''get'' ''string'') (Some 3)
     (AddChildCommand u (childInfo ''set'' ''string'') (Some 2)
        (fst (AddCommand u (configInfo False) (Some 1) emptyRegistry))) = configRegistry"
  unfolding configRegistry_eq
  by (simp add: AddChildCommand_def AddCommand_def emptyRegistry_def
      configInfo_def childInfo_def zeroCommandInfo_def lower_config childrenOf_def configCommand_def
      Let_def)

lemma pingRegistry_any:
  "fst (AddCommand u (zeroCommandInfo\<lparr>Trigger := ''ping''\<rparr>) (Some 1) emptyRegistry) = pingRegistry"
  unfolding pingRegistry_eq
  by (simp add: pingCommand_def AddCommand_def zeroCommandInfo_def emptyRegistry_def lower_ping)

section \<open>Alias and trigger tables\<close>

text \<open>
  What registration does achieve. Every entry of the alias table after the loop is an
  old entry or the new trigger. A command whose trigger is written in lower case and is
  not yet claimed as an alias is found under every casing of its trigger; and a command
  whose trigger and aliases are all written in lower case leaves every existing alias
  entry as it is.
\<close>

lemma addAliases_append:
  "addAliases u trig (xs @ ys) s = addAliases u trig ys (addAliases u trig xs s)"
proof (induction xs arbitrary: s)
  case Nil
  show ?case by (cases s) simp
next
  case (Cons x xs)
  show ?case by (cases s) (simp add: Cons.IH)
qed

lemma addAliases_value:
  "fst (addAliases u trig xs (m, lg)) k = m k \<or> fst (addAliases u trig xs (m, lg)) k = Some trig"
proof (induction xs arbitrary: m lg)
  case Nil
  show ?case by simp
next
  case (Cons x xs)
  show ?case
  proof (cases "m x = None")
    case True
    define m' where "m' = m(ToLower u x \<mapsto> trig)"
    have step: "addAliases u trig (x # xs) (m, lg) = addAliases u trig xs (m', lg)"
      using True by (simp add: m'_def)
    have "m' k = m k \<or> m' k = Some trig"
      by (simp add: m'_def)
    with Cons.IH [of m' lg] show ?thesis
      unfolding step by auto
  next
    case False
    then have step: "addAliases u trig (x # xs) (m, lg) = addAliases u trig xs (m, lg @ [x])"
      by simp
    from Cons.IH [of m "lg @ [x]"] show ?thesis
      unfolding step .
  qed
qed

lemma addAliases_keeps:
  "\<forall>x \<in> set xs. ToLower u x = x \<Longrightarrow> m k = Some v \<Longrightarrow>
   fst (addAliases u trig xs (m, lg)) k = Some v"
proof (induction xs arbitrary: m lg)
  case Nil
  then show ?case by simp
next
  case (Cons x xs)
  from Cons.prems have low: "ToLower u x = x" and rest: "\<forall>x \<in> set xs. ToLower u x = x"
    by simp_all
  show ?case
  proof (cases "m x = None")
    case True
    define m' where "m' = m(ToLower u x \<mapsto> trig)"
    have step: "addAliases u trig (x # xs) (m, lg) = addAliases u trig xs (m', lg)"
      using True by (simp add: m'_def)
    from True Cons.prems(2) have "k \<noteq> x" by auto
    with low Cons.prems(2) have "m' k = Some v"
      by (simp add: m'_def)
    from Cons.IH [of m' lg, OF rest this] show ?thesis
      unfolding step .
  next
    case False
    then have step: "addAliases u trig (x # xs) (m, lg) = addAliases u trig xs (m, lg @ [x])"
      by simp
    from Cons.IH [of m "lg @ [x]", OF rest Cons.prems(2)] show ?thesis
      unfolding step .
  qed
qed

lemma AddCommand_tables:
  "commandAliases (fst (AddCommand u info function r))
     = fst (addAliases u (Trigger info) (Aliases info @ [Trigger info]) (commandAliases r, []))"
  "commands (fst (AddCommand u info function r))
     = (commands r)(ToLower u (Trigger info) \<mapsto>
          \<lparr>Info = info\<lparr>Aliases := Aliases info @ [Trigger info]\<rparr>, Function = function\<rparr>)"
  by (simp_all add: AddCommand_def Let_def split: prod.splits)

lemma AddCommand_lower_case_trigger:
  assumes low: "ToLower u (Trigger info) = Trigger info"
    and free: "commandAliases r (Trigger info) = None"
    and variant: "ToLower u token = Trigger info"
  shows "lookupCommand (fst (AddCommand u info function r)) (ToLower u token)
           = Some \<lparr>Info = info\<lparr>Aliases := Aliases info @ [Trigger info]\<rparr>, Function = function\<rparr>"
proof -
  obtain m lg where pre: "addAliases u (Trigger info) (Aliases info) (commandAliases r, []) = (m, lg)"
    by (cases "addAliases u (Trigger info) (Aliases info) (commandAliases r, [])") auto
  from addAliases_value [of u "Trigger info" "Aliases info" "commandAliases r" "[]" "Trigger info"]
    pre free
  have m: "m (Trigger info) = None \<or> m (Trigger info) = Some (Trigger info)" by simp
  have "fst (addAliases u (Trigger info) (Aliases info @ [Trigger info]) (commandAliases r, []))
          (Trigger info) = Some (Trigger info)"
    using m by (auto simp: addAliases_append pre low)
  then have "aliasTarget (fst (AddCommand u info function r)) (Trigger info) = Trigger info"
    by (simp add: aliasTarget_def AddCommand_tables)
  with variant low show ?thesis
    by (simp add: lookupCommand_def AddCommand_tables)
qed

lemma AddCommand_lower_case_keeps_aliases:
  assumes low: "\<forall>x \<in> set (Aliases info @ [Trigger info]). ToLower u x = x"
    and claimed: "commandAliases r alias = Some t"
  shows "commandAliases (fst (AddCommand u info function r)) alias = Some t"
  using addAliases_keeps [where xs = "Aliases info @ [Trigger info]" and m = "commandAliases r"
      and k = "alias" and v = t and trig = "Trigger info" and lg = "[]" and u = u, OF low claimed]
  by (simp add: AddCommand_tables)

text \<open>
  Claim C2 (every casing variant of a registered trigger resolves to its command), at
  the registration of the trigger \<open>Ban\<close> in the empty registry. The command is stored
  under \<open>ban\<close>, but the alias table maps \<open>ban\<close> to the trigger as written, \<open>Ban\<close>, which
  is no key of the command table: the lookup of \<open>commandHandler\<close> finds nothing for
  \<open>ban\<close>, \<open>BAN\<close> and \<open>Ban\<close> lower-cased, nor for \<open>Ban\<close> as written.
\<close>

theorem mixed_case_trigger_not_found:
  "commandAliases (fst (AddCommand u (zeroCommandInfo\<lparr>Trigger := ''Ban''\<rparr>) (Some 1) emptyRegistry))
       ''ban'' = Some ''Ban''
   \<and> commands (fst (AddCommand u (zeroCommandInfo\<lparr>Trigger := ''Ban''\<rparr>) (Some 1) emptyRegistry))
       ''ban''
      = Some \<lparr>Info = zeroCommandInfo\<lparr>Trigger := ''Ban'', Aliases := [''Ban'']\<rparr>,
              Function = Some 1\<rparr>
   \<and> commands (fst (AddCommand u (zeroCommandInfo\<lparr>Trigger := ''Ban''\<rparr>) (Some 1) emptyRegistry))
       ''Ban'' = None
   \<and> lookupCommand (fst (AddCommand u (zeroCommandInfo\<lparr>Trigger := ''Ban''\<rparr>) (Some 1) emptyRegistry))
       (ToLower u ''ban'') = None
   \<and> lookupCommand (fst (AddCommand u (zeroCommandInfo\<lparr>Trigger := ''Ban''\<rparr>) (Some 1) emptyRegistry))
       (ToLower u ''BAN'') = None
   \<and> lookupCommand (fst (AddCommand u (zeroCommandInfo\<lparr>Trigger := ''Ban''\<rparr>) (Some 1) emptyRegistry))
       (ToLower u ''Ban'') = None
   \<and> lookupCommand (fst (AddCommand u (zeroCommandInfo\<lparr>Trigger := ''Ban''\<rparr>) (Some 1) emptyRegistry))
       ''Ban'' = None"
  by (simp add: AddCommand_def zeroCommandInfo_def emptyRegistry_def lookupCommand_def
      aliasTarget_def lower_Ban)

text \<open>
  Claim C3 (an alias claimed by an earlier command keeps its entry), at the commands
  \<open>ban\<close> with alias \<open>b\<close> and \<open>block\<close> with alias \<open>B\<close>. The presence check reads the
  table at \<open>B\<close>, where nothing is stored, so the entry at \<open>b\<close> is overwritten with
  \<open>block\<close> and no conflict is logged.
\<close>

theorem case_variant_alias_overwritten:
  "commandAliases
       (fst (AddCommand u (zeroCommandInfo\<lparr>Trigger := ''ban'', Aliases := [''b'']\<rparr>) (Some 1)
               emptyRegistry)) ''b'' = Some ''ban''
   \<and> commandAliases
       (fst (AddCommand u (zeroCommandInfo\<lparr>Trigger := ''block'', Aliases := [''B'']\<rparr>) (Some 2)
          (fst (AddCommand u (zeroCommandInfo\<lparr>Trigger := ''ban'', Aliases := [''b'']\<rparr>) (Some 1)
                  emptyRegistry)))) ''b'' = Some ''block''
   \<and> snd (AddCommand u (zeroCommandInfo\<lparr>Trigger := ''block'', Aliases := [''B'']\<rparr>) (Some 2)
          (fst (AddCommand u (zeroCommandInfo\<lparr>Trigger := ''ban'', Aliases := [''b'']\<rparr>) (Some 1)
                  emptyRegistry))) = []"
  by (simp add: AddCommand_def zeroCommandInfo_def emptyRegistry_def lower_b lower_Ban)

text \<open>
  Claim C8 (after a trigger collision the dispatch uses the newest registration), at
  the triggers \<open>ban\<close> and then \<open>Ban\<close>. Before the second call \<open>ban\<close> resolves to the
  first command. After it the command table holds the second command under \<open>ban\<close>, but
  the alias entry of \<open>ban\<close> now is \<open>Ban\<close>, and the lookup of \<open>commandHandler\<close> finds no
  command at all.
\<close>

theorem trigger_collision_not_dispatched:
  "lookupCommand (fst (AddCommand u (zeroCommandInfo\<lparr>Trigger := ''ban''\<rparr>) (Some 1) emptyRegistry))
       ''ban''
     = Some \<lparr>Info = zeroCommandInfo\<lparr>Trigger := ''ban'', Aliases := [''ban'']\<rparr>,
             Function = Some 1\<rparr>
   \<and> commands
       (fst (AddCommand u (zeroCommandInfo\<lparr>Trigger := ''Ban''\<rparr>) (Some 2)
          (fst (AddCommand u (zeroCommandInfo\<lparr>Trigger := ''ban''\<rparr>) (Some 1) emptyRegistry))))
       ''ban''
     = Some \<lparr>Info = zeroCommandInfo\<lparr>Trigger := ''Ban'', Aliases := [''Ban'']\<rparr>,
             Function = Some 2\<rparr>
   \<and> lookupCommand
       (fst (AddCommand u (zeroCommandInfo\<lparr>Trigger := ''Ban''\<rparr>) (Some 2)
          (fst (AddCommand u (zeroCommandInfo\<lparr>Trigger := ''ban''\<rparr>) (Some 1) emptyRegistry))))
       ''ban'' = None"
  by (simp add: AddCommand_def zeroCommandInfo_def emptyRegistry_def lower_Ban lookupCommand_def
      aliasTarget_def)

section \<open>The counter of \<open>commandHandler\<close>\<close>

lemma invoke_no_gc: "invoke env f ctx = (evs, res) \<Longrightarrow> FreeOSMemory \<notin> set evs"
  by (auto simp: invoke_def split: option.splits)

lemma handleChildCommand_no_gc:
  "handleChildCommand env r a command message g = (evs, res) \<Longrightarrow> FreeOSMemory \<notin> set evs"
  by (auto simp: handleChildCommand_def split: list.splits option.splits dest: invoke_no_gc)

lemma commandBody_no_gc:
  "commandBody env r command argString message g = (evs, res, r') \<Longrightarrow> FreeOSMemory \<notin> set evs"
  by (auto simp: commandBody_def split: option.splits prod.splits sum.splits if_splits
      dest: invoke_no_gc handleChildCommand_no_gc)

lemma commandBody_counter:
  "commandBody env r command argString message g = (evs, res, r') \<Longrightarrow>
     r' = r \<or> r' = r\<lparr>commandsGC := commandsGC r + 1\<rparr>"
  by (auto simp: commandBody_def split: option.splits prod.splits sum.splits if_splits)

lemma handleCommandError_no_gc:
  "handleCommandError env g c u p = (evs, res) \<Longrightarrow> FreeOSMemory \<notin> set evs"
  by (auto simp: handleCommandError_def SendErrorReport_def Let_def split: option.splits prod.splits sum.splits)

lemma commandHandler_no_gc:
  "commandHandler env message r = (evs, res, r') \<Longrightarrow> FreeOSMemory \<notin> set evs"
  by (auto simp: commandHandler_def Let_def split: option.splits prod.splits if_splits
      dest: commandBody_no_gc handleCommandError_no_gc)

lemma commandHandler_counter:
  "commandHandler env message r = (evs, res, r') \<Longrightarrow>
     r' = r \<or> r' = r\<lparr>commandsGC := commandsGC r + 1\<rparr>"
  by (auto simp: commandHandler_def Let_def split: option.splits prod.splits if_splits
      dest: commandBody_counter)


lemma commandHandler_invoked:
  assumes ch: "StateChannel env (msg_ChannelID message) \<noteq> None
               \<or> SessionChannel env (msg_ChannelID message) \<noteq> None"
    and au: "msg_Author message \<noteq> selfID env"
    and ex: "ExtractCommand env (GetGuild env (msg_GuildID message)) (msg_Content message)
               = (Some trigger, Some a)"
    and lk: "lookupCommand r trigger = Some command"
  shows "snd (snd (commandHandler env message r))
           = snd (snd (commandBody env r command (Some a) message (GetGuild env (msg_GuildID message))))"
  using assms
  by (auto simp: commandHandler_def Let_def split: option.splits prod.splits)

text \<open>
  Claim C6, as amended. The guard \<open>commandsGC == 25 && commandsGC > 25\<close> is false for
  every value of the counter; no run of \<open>commandHandler\<close> calls \<open>debug.FreeOSMemory\<close>,
  and every run leaves the registry as it was or adds one to the counter (in 64-bit
  arithmetic), so the counter is never reset. When the message resolves to a command
  that is no parent, the counter is incremented if the handler returns and is left
  unchanged if the handler panics.
\<close>

theorem commandsGC_never_reset:
  "\<not> (c = 25 \<and> 25 <s (c :: 64 word))
   \<and> FreeOSMemory \<notin> set (fst (commandHandler env message r))
   \<and> (snd (snd (commandHandler env message r)) = r
      \<or> snd (snd (commandHandler env message r)) = r\<lparr>commandsGC := commandsGC r + 1\<rparr>)
   \<and> ((StateChannel env (msg_ChannelID message) \<noteq> None
         \<or> SessionChannel env (msg_ChannelID message) \<noteq> None)
       \<longrightarrow> msg_Author message \<noteq> selfID env
       \<longrightarrow> ExtractCommand env (GetGuild env (msg_GuildID message)) (msg_Content message)
             = (Some trigger, Some a)
       \<longrightarrow> lookupCommand r trigger = Some command
       \<longrightarrow> \<not> IsParent (Info command)
       \<longrightarrow> Function command = Some h
       \<longrightarrow> (handler env h \<lparr>ctx_Guild = GetGuild env (msg_GuildID message), Cmd = Info command,
                             Args = Some (ParseArguments env a (Arguments (Info command))),
                             ctx_Message = message\<rparr> = None
              \<longrightarrow> snd (snd (commandHandler env message r)) = r\<lparr>commandsGC := commandsGC r + 1\<rparr>)
          \<and> (handler env h \<lparr>ctx_Guild = GetGuild env (msg_GuildID message), Cmd = Info command,
                             Args = Some (ParseArguments env a (Arguments (Info command))),
                             ctx_Message = message\<rparr> \<noteq> None
              \<longrightarrow> snd (snd (commandHandler env message r)) = r))"
proof (intro conjI impI)
  show "\<not> (c = 25 \<and> 25 <s c)" by auto
next
  obtain evs res r' where run: "commandHandler env message r = (evs, res, r')"
    by (cases "commandHandler env message r") auto
  from commandHandler_no_gc [OF run] run
  show "FreeOSMemory \<notin> set (fst (commandHandler env message r))" by simp
  from commandHandler_counter [OF run] run
  show "snd (snd (commandHandler env message r)) = r
      \<or> snd (snd (commandHandler env message r)) = r\<lparr>commandsGC := commandsGC r + 1\<rparr>" by simp
next
  assume ch: "StateChannel env (msg_ChannelID message) \<noteq> None
               \<or> SessionChannel env (msg_ChannelID message) \<noteq> None"
    and au: "msg_Author message \<noteq> selfID env"
    and ex: "ExtractCommand env (GetGuild env (msg_GuildID message)) (msg_Content message)
               = (Some trigger, Some a)"
    and lk: "lookupCommand r trigger = Some command"
    and np: "\<not> IsParent (Info command)"
    and fn: "Function command = Some h"
    and ret: "handler env h \<lparr>ctx_Guild = GetGuild env (msg_GuildID message), Cmd = Info command,
                             Args = Some (ParseArguments env a (Arguments (Info command))),
                             ctx_Message = message\<rparr> = None"
  from np fn ret
  have "snd (snd (commandBody env r command (Some a) message (GetGuild env (msg_GuildID message))))
          = r\<lparr>commandsGC := commandsGC r + 1\<rparr>"
    by (simp add: commandBody_def invoke_def)
  with commandHandler_invoked [OF ch au ex lk]
  show "snd (snd (commandHandler env message r)) = r\<lparr>commandsGC := commandsGC r + 1\<rparr>"
    by simp
next
  assume ch: "StateChannel env (msg_ChannelID message) \<noteq> None
               \<or> SessionChannel env (msg_ChannelID message) \<noteq> None"
    and au: "msg_Author message \<noteq> selfID env"
    and ex: "ExtractCommand env (GetGuild env (msg_GuildID message)) (msg_Content message)
               = (Some trigger, Some a)"
    and lk: "lookupCommand r trigger = Some command"
    and np: "\<not> IsParent (Info command)"
    and fn: "Function command = Some h"
    and pan: "handler env h \<lparr>ctx_Guild = GetGuild env (msg_GuildID message), Cmd = Info command,
                             Args = Some (ParseArguments env a (Arguments (Info command))),
                             ctx_Message = message\<rparr> \<noteq> None"
  from np fn pan
  have "snd (snd (commandBody env r command (Some a) message (GetGuild env (msg_GuildID message))))
          = r"
    by (auto simp: commandBody_def invoke_def)
  with commandHandler_invoked [OF ch au ex lk]
  show "snd (snd (commandHandler env message r)) = r"
    by simp
qed

theorem commandsGC_never_reset_witness:
  "StateChannel (exampleEnv alwaysReturns) (msg_ChannelID (textMessage ''ping'')) = Some ''c1''
   \<and> msg_Author (textMessage ''ping'') \<noteq> selfID (exampleEnv alwaysReturns)
   \<and> ExtractCommand (exampleEnv alwaysReturns)
        (GetGuild (exampleEnv alwaysReturns) (msg_GuildID (textMessage ''ping'')))
        (msg_Content (textMessage ''ping'')) = (Some ''ping'', Some [])
   \<and> lookupCommand pingRegistry ''ping'' = Some pingCommand
   \<and> \<not> IsParent (Info pingCommand)
   \<and> Function pingCommand = Some 1
   \<and> commandsGC (snd (snd (commandHandler (exampleEnv alwaysReturns) (textMessage ''ping'')
        pingRegistry))) = 1"
proof -
  have ch: "StateChannel (exampleEnv alwaysReturns) (msg_ChannelID (textMessage ''ping'')) \<noteq> None
     \<or> SessionChannel (exampleEnv alwaysReturns) (msg_ChannelID (textMessage ''ping'')) \<noteq> None"
    by (simp add: exampleEnv_def asciiLower_examples)
  have au: "msg_Author (textMessage ''ping'') \<noteq> selfID (exampleEnv alwaysReturns)"
    by (simp add: exampleEnv_def asciiLower_examples textMessage_def)
  have ex: "ExtractCommand (exampleEnv alwaysReturns)
        (GetGuild (exampleEnv alwaysReturns) (msg_GuildID (textMessage ''ping'')))
        (msg_Content (textMessage ''ping'')) = (Some ''ping'', Some [])"
    by (simp add: exampleEnv_def asciiLower_examples textMessage_def lower_ping)
  have lk: "lookupCommand pingRegistry ''ping'' = Some pingCommand"
    by (simp add: pingRegistry_eq lookupCommand_def aliasTarget_def)
  have np: "\<not> IsParent (Info pingCommand)"
    by (simp add: pingCommand_def zeroCommandInfo_def)
  have fn: "Function pingCommand = Some 1"
    by (simp add: pingCommand_def)
  have ret: "handler (exampleEnv alwaysReturns) 1 ctx = None" for ctx
    by (simp add: exampleEnv_def asciiLower_examples alwaysReturns_def)
  note run = commandsGC_never_reset [of 0 "exampleEnv alwaysReturns" "textMessage ''ping''"
      pingRegistry "''ping''" "[]" pingCommand 1]
  note inc = run [THEN conjunct2, THEN conjunct2, THEN conjunct2, rule_format, OF ch au ex lk np fn]
  from inc [THEN conjunct1, rule_format, OF ret]
  have "snd (snd (commandHandler (exampleEnv alwaysReturns) (textMessage ''ping'') pingRegistry))
          = pingRegistry\<lparr>commandsGC := commandsGC pingRegistry + 1\<rparr>" .
  then have "commandsGC (snd (snd (commandHandler (exampleEnv alwaysReturns) (textMessage ''ping'')
        pingRegistry))) = 1"
    by (simp add: pingRegistry_eq)
  moreover have "StateChannel (exampleEnv alwaysReturns) (msg_ChannelID (textMessage ''ping''))
      = Some ''c1''"
    by (simp add: exampleEnv_def asciiLower_examples textMessage_def)
  ultimately show ?thesis using au ex lk np fn by blast
qed

text \<open>
  The claim as stated, that the counter is incremented on every invocation of a command
  that is no parent, fails when the handler panics: \<open>ping\<close> is invoked, the panic is
  recovered and reported, and the counter still is \<open>0\<close>.
\<close>

theorem commandsGC_panic_counterexample:
  "lookupCommand pingRegistry ''ping'' = Some pingCommand
   \<and> \<not> IsParent (Info pingCommand)
   \<and> commandHandler (exampleEnv (alwaysPanics (RuntimeError IndexOutOfRange)))
        (textMessage ''ping'') pingRegistry
     = ([Call 1 \<lparr>ctx_Guild = \<lparr>guild_ID = ''g1'', ResponseChannelID = []\<rparr>,
                 Cmd = Info pingCommand, Args = Some [(''text'', [])],
                 ctx_Message = textMessage ''ping''\<rparr>,
         LogWarning ''Recovering from panic: %s'',
         LogWarning ''Sending Error report to admins'',
         ErrorReport ''g1'' ''c1'' ''u1'' (RuntimeError IndexOutOfRange),
         MessageSend ''c1'' ''Error!'', Sleep 5, MessageDelete ''c1'' ''notice''],
        Inr (), pingRegistry)
   \<and> commandsGC pingRegistry = 0"
  by (simp add: commandHandler_def exampleEnv_def asciiLower_examples textMessage_def pingRegistry_eq pingCommand_def
      zeroCommandInfo_def lookupCommand_def aliasTarget_def lower_ping commandBody_def invoke_def
      alwaysPanics_def handleCommandError_def SendErrorReport_def)


section \<open>Properties of the recovery\<close>

text \<open>What the recovery does with a run-time fault when the notice can be posted.\<close>

lemma handleCommandError_runtime_error:
  "ChannelMessageSend env cId ''Error!'' = (Some m, err) \<Longrightarrow>
   handleCommandError env gID cId uId (Some (RuntimeError e)) =
     ([LogWarning ''Recovering from panic: %s'', LogWarning ''Sending Error report to admins'',
       ErrorReport gID cId uId (RuntimeError e), MessageSend cId ''Error!'']
      @ (if err \<noteq> None then [LogError ''err sending message %s''] else [])
      @ [Sleep 5, MessageDelete cId (msg_ID m)], Inr ())"
  by (simp add: handleCommandError_def SendErrorReport_def)

text \<open>When the notice cannot be posted, the message pointer is nil and is dereferenced.\<close>

lemma handleCommandError_send_fails:
  "ChannelMessageSend env cId ''Error!'' = (None, err) \<Longrightarrow>
   snd (handleCommandError env gID cId uId (Some (RuntimeError e)))
     = Inl (RuntimeError NilDereference)"
  by (simp add: handleCommandError_def SendErrorReport_def)

text \<open>
  After a failed edit on the interaction path the function panics whatever the fallback
  response does: a successful response leaves a nil error whose \<open>Error\<close> method is
  called, and the edit has returned no message to delete.
\<close>

lemma handleInteractionError_edit_fails:
  "int_Member i = Some uId \<Longrightarrow>
   InteractionResponseEdit env i ''error executing command'' = (None, Some e1) \<Longrightarrow>
   snd (handleInteractionError env i (Some (RuntimeError e))) = Inl (RuntimeError NilDereference)"
  by (simp add: handleInteractionError_def SendErrorReport_def deleteNotice_def Let_def split: option.splits)

text \<open>
  Claim C1 (the recovery never panics, whatever the panic value), at a handler that
  panics with a string, \<open>panic("boom")\<close>. On both paths the unchecked assertion
  \<open>r.(runtime.Error)\<close> panics inside the recovery: the two warnings are logged, no
  report is sent and no notice is posted. The new panic leaves \<open>commandHandler\<close>.
\<close>

theorem recovery_panics_on_non_runtime_error:
  "handleCommandError env gID cId uId (Some (PanicString s))
     = ([LogWarning ''Recovering from panic: %s'', LogWarning ''Sending Error report to admins''],
        Inl (RuntimeError TypeAssertionFailed))
   \<and> handleInteractionError env (i\<lparr>int_Member := Some uId\<rparr>) (Some (PanicString s))
     = ([LogWarning ''Recovering from panic: %s'', LogWarning ''Sending Error report to admins''],
        Inl (RuntimeError TypeAssertionFailed))
   \<and> commandHandler (exampleEnv (alwaysPanics (PanicString ''boom''))) (textMessage ''ping'')
        pingRegistry
     = ([Call 1 \<lparr>ctx_Guild = \<lparr>guild_ID = ''g1'', ResponseChannelID = []\<rparr>,
                 Cmd = Info pingCommand, Args = Some [(''text'', [])],
                 ctx_Message = textMessage ''ping''\<rparr>,
         LogWarning ''Recovering from panic: %s'',
         LogWarning ''Sending Error report to admins''],
        Inl (RuntimeError TypeAssertionFailed), pingRegistry)"
  by (simp add: handleCommandError_def SendErrorReport_def handleInteractionError_def commandHandler_def
      exampleEnv_def asciiLower_examples textMessage_def pingRegistry_eq pingCommand_def zeroCommandInfo_def
      lookupCommand_def aliasTarget_def lower_ping commandBody_def invoke_def alwaysPanics_def)


section \<open>Child-command resolution\<close>

text \<open>
  \<open>handleChildCommand\<close> cuts the remainder at its first space and reads the child table
  at the parent's trigger as written. When the remainder has no space, the whole of it
  is the first token: if the table read has no entry for it, the parent's own handler is
  called with nil arguments, otherwise the entry's handler is called with the arguments
  parsed from the empty string. When the remainder is \<open>first\<close>, a space and \<open>rest\<close>,
  with no space in \<open>first\<close>: if the table read has no entry for \<open>first\<close>, the parent's
  handler is called with nil arguments, otherwise the entry's handler is called with the
  arguments parsed from \<open>rest\<close>. And \<open>commandHandler\<close> hands every parent command to
  \<open>handleChildCommand\<close>, leaving the registry as it is.
\<close>

lemma handleChildCommand_branches:
  "(CHR '' '' \<notin> set argString \<longrightarrow>
      (childLookup r (Trigger (Info command)) argString = None \<longrightarrow>
         handleChildCommand env r argString command message guild
           = invoke env (Function command)
               \<lparr>ctx_Guild = guild, Cmd = Info command, Args = None, ctx_Message = message\<rparr>)
    \<and> (childLookup r (Trigger (Info command)) argString = Some childCmd \<longrightarrow>
         handleChildCommand env r argString command message guild
           = invoke env (Function childCmd)
               \<lparr>ctx_Guild = guild, Cmd = Info childCmd,
                Args = Some (ParseArguments env [] (Arguments (Info childCmd))),
                ctx_Message = message\<rparr>))
   \<and> (CHR '' '' \<notin> set first \<longrightarrow>
      (childLookup r (Trigger (Info command)) first = None \<longrightarrow>
         handleChildCommand env r (first @ CHR '' '' # rest) command message guild
           = invoke env (Function command)
               \<lparr>ctx_Guild = guild, Cmd = Info command, Args = None, ctx_Message = message\<rparr>)
    \<and> (childLookup r (Trigger (Info command)) first = Some childCmd \<longrightarrow>
         handleChildCommand env r (first @ CHR '' '' # rest) command message guild
           = invoke env (Function childCmd)
               \<lparr>ctx_Guild = guild, Cmd = Info childCmd,
                Args = Some (ParseArguments env rest (Arguments (Info childCmd))),
                ctx_Message = message\<rparr>))
   \<and> (IsParent (Info command) \<longrightarrow>
        commandBody env r command (Some argString) message guild
          = (fst (handleChildCommand env r argString command message guild),
             snd (handleChildCommand env r argString command message guild), r))"
  by (simp add: handleChildCommand_def SplitN2_none SplitN2_some commandBody_def split: prod.splits)


lemma childLookup_config:
  "childLookup configRegistry ''config'' ''set'' = Some setCommand"
  "childLookup configRegistry ''config'' ''bogus'' = None"
  "childLookup configRegistry ''config'' [] = None"
  by (simp_all add: childLookup_def childrenOf_def configRegistry_eq setCommand_def)

lemma configCommand_fields:
  "Trigger (Info configCommand) = ''config''" "IsParent (Info configCommand)"
  "Function configCommand = Some 1"
  by (simp_all add: configCommand_def configInfo_def zeroCommandInfo_def)

lemma invoke_example:
  "invoke (exampleEnv alwaysReturns) (Some h) ctx = ([Call h ctx], Inr ())"
  by (simp add: invoke_def exampleEnv_def asciiLower_examples alwaysReturns_def)

lemma parse_example: "ParseArguments (exampleEnv outcome) s d = [(''text'', s)]"
  by (simp add: exampleEnv_def asciiLower_examples)

lemma handleChildCommand_examples:
  "CHR '' '' \<notin> set ''set'' \<and> CHR '' '' \<notin> set ''bogus''
   \<and> IsParent (Info configCommand)
   \<and> childLookup configRegistry (Trigger (Info configCommand)) ''set'' = Some setCommand
   \<and> childLookup configRegistry (Trigger (Info configCommand)) ''bogus'' = None
   \<and> handleChildCommand (exampleEnv alwaysReturns) configRegistry ''set foo'' configCommand
        (textMessage ''config set foo'') exampleGuild
      = ([Call 2 \<lparr>ctx_Guild = exampleGuild, Cmd = Info setCommand,
                  Args = Some [(''text'', ''foo'')],
                  ctx_Message = textMessage ''config set foo''\<rparr>], Inr ())
   \<and> handleChildCommand (exampleEnv alwaysReturns) configRegistry ''set'' configCommand
        (textMessage ''config set'') exampleGuild
      = ([Call 2 \<lparr>ctx_Guild = exampleGuild, Cmd = Info setCommand,
                  Args = Some [(''text'', [])],
                  ctx_Message = textMessage ''config set''\<rparr>], Inr ())
   \<and> handleChildCommand (exampleEnv alwaysReturns) configRegistry ''bogus'' configCommand
        (textMessage ''config bogus'') exampleGuild
      = ([Call 1 \<lparr>ctx_Guild = exampleGuild, Cmd = Info configCommand, Args = None,
                  ctx_Message = textMessage ''config bogus''\<rparr>], Inr ())
   \<and> handleChildCommand (exampleEnv alwaysReturns) configRegistry ''bogus foo'' configCommand
        (textMessage ''config bogus foo'') exampleGuild
      = ([Call 1 \<lparr>ctx_Guild = exampleGuild, Cmd = Info configCommand, Args = None,
                  ctx_Message = textMessage ''config bogus foo''\<rparr>], Inr ())
   \<and> commandBody (exampleEnv alwaysReturns) configRegistry configCommand (Some ''set foo'')
        (textMessage ''config set foo'') exampleGuild
      = ([Call 2 \<lparr>ctx_Guild = exampleGuild, Cmd = Info setCommand,
                  Args = Some [(''text'', ''foo'')],
                  ctx_Message = textMessage ''config set foo''\<rparr>], Inr (), configRegistry)"
proof -
  have sp: "CHR '' '' \<notin> set ''set''" "CHR '' '' \<notin> set ''bogus''" by simp_all
  note lk = childLookup_config [folded configCommand_fields(1)]
  note r1 = handleChildCommand_branches [where first = "''set''" and rest = "''foo''"
      and r = configRegistry and command = configCommand and childCmd = setCommand
      and env = "exampleEnv alwaysReturns" and message = "textMessage ''config set foo''"
      and guild = exampleGuild and argString = "''set foo''"]
  note r2 = handleChildCommand_branches [where argString = "''set''"
      and r = configRegistry and command = configCommand and childCmd = setCommand
      and env = "exampleEnv alwaysReturns" and message = "textMessage ''config set''"
      and guild = exampleGuild and first = "''set''" and rest = "[]"]
  note r3 = handleChildCommand_branches [where argString = "''bogus''"
      and r = configRegistry and command = configCommand and childCmd = setCommand
      and env = "exampleEnv alwaysReturns" and message = "textMessage ''config bogus''"
      and guild = exampleGuild and first = "''bogus''" and rest = "''foo''"]
  note r4 = handleChildCommand_branches [where argString = "''bogus''"
      and r = configRegistry and command = configCommand and childCmd = setCommand
      and env = "exampleEnv alwaysReturns" and message = "textMessage ''config bogus foo''"
      and guild = exampleGuild and first = "''bogus''" and rest = "''foo''"]
  have a: "handleChildCommand (exampleEnv alwaysReturns) configRegistry ''set foo'' configCommand
        (textMessage ''config set foo'') exampleGuild
      = ([Call 2 \<lparr>ctx_Guild = exampleGuild, Cmd = Info setCommand,
                  Args = Some [(''text'', ''foo'')],
                  ctx_Message = textMessage ''config set foo''\<rparr>], Inr ())"
    using r1 sp lk by (simp add: invoke_example parse_example setCommand_def)
  have b: "handleChildCommand (exampleEnv alwaysReturns) configRegistry ''set'' configCommand
        (textMessage ''config set'') exampleGuild
      = ([Call 2 \<lparr>ctx_Guild = exampleGuild, Cmd = Info setCommand,
                  Args = Some [(''text'', [])],
                  ctx_Message = textMessage ''config set''\<rparr>], Inr ())"
    using r2 sp lk by (simp add: invoke_example parse_example setCommand_def)
  have c: "handleChildCommand (exampleEnv alwaysReturns) configRegistry ''bogus'' configCommand
        (textMessage ''config bogus'') exampleGuild
      = ([Call 1 \<lparr>ctx_Guild = exampleGuild, Cmd = Info configCommand, Args = None,
                  ctx_Message = textMessage ''config bogus''\<rparr>], Inr ())"
    using r3 sp lk by (simp add: invoke_example configCommand_fields)
  have d: "handleChildCommand (exampleEnv alwaysReturns) configRegistry ''bogus foo'' configCommand
        (textMessage ''config bogus foo'') exampleGuild
      = ([Call 1 \<lparr>ctx_Guild = exampleGuild, Cmd = Info configCommand, Args = None,
                  ctx_Message = textMessage ''config bogus foo''\<rparr>], Inr ())"
    using r4 sp lk by (simp add: invoke_example configCommand_fields)
  have e: "commandBody (exampleEnv alwaysReturns) configRegistry configCommand (Some ''set foo'')
        (textMessage ''config set foo'') exampleGuild
      = ([Call 2 \<lparr>ctx_Guild = exampleGuild, Cmd = Info setCommand,
                  Args = Some [(''text'', ''foo'')],
                  ctx_Message = textMessage ''config set foo''\<rparr>], Inr (), configRegistry)"
    using r1 a configCommand_fields(2) by simp
  from sp configCommand_fields(2) lk a b c d e show ?thesis by simp
qed

text \<open>
  The examples of the claim through \<open>commandHandler\<close>: \<open>config set foo\<close> calls the child
  \<open>set\<close> with the remainder \<open>foo\<close>; \<open>config\<close> and \<open>config bogus\<close> call the parent with
  nil arguments.
\<close>

lemma text_path_examples:
  "commandHandler (exampleEnv alwaysReturns) (textMessage ''config set foo'') configRegistry
     = ([Call 2 \<lparr>ctx_Guild = exampleGuild, Cmd = Info setCommand,
                 Args = Some [(''text'', ''foo'')],
                 ctx_Message = textMessage ''config set foo''\<rparr>], Inr (), configRegistry)"
  "commandHandler (exampleEnv alwaysReturns) (textMessage ''config'') configRegistry
     = ([Call 1 \<lparr>ctx_Guild = exampleGuild, Cmd = Info configCommand, Args = None,
                 ctx_Message = textMessage ''config''\<rparr>], Inr (), configRegistry)"
  "commandHandler (exampleEnv alwaysReturns) (textMessage ''config bogus'') configRegistry
     = ([Call 1 \<lparr>ctx_Guild = exampleGuild, Cmd = Info configCommand, Args = None,
                 ctx_Message = textMessage ''config bogus''\<rparr>], Inr (), configRegistry)"
  by (simp_all add: commandHandler_def exampleEnv_def asciiLower_examples textMessage_def configRegistry_eq
      lookupCommand_def aliasTarget_def lower_config commandBody_def handleChildCommand_def
      SplitN2_def childLookup_def childrenOf_def invoke_def alwaysReturns_def
      handleCommandError_def SendErrorReport_def configCommand_def configInfo_def zeroCommandInfo_def
      setCommand_def exampleGuild_def childInfo_def)

text \<open>
  The children of a parent are stored at the lower-cased parent identifier, so they are
  found under the parent's trigger only when that trigger is written in lower case. For
  such a parent the resolution follows the children registered for it.
\<close>

lemma map_of_putChild: "map_of (putChild k v kids) = (map_of kids)(k \<mapsto> v)"
  by (induction kids) (auto simp: fun_eq_iff)

lemma AddChildCommand_registers:
  "map_of (registeredChildren u (AddChildCommand u info function r) (ParentID info)) (Trigger info)
     = Some \<lparr>Info = info, Function = function\<rparr>"
  by (simp add: registeredChildren_def AddChildCommand_def childrenOf_def Let_def map_of_putChild)

lemma childLookup_lower_case_parent:
  "ToLower u (Trigger (Info command)) = Trigger (Info command) \<Longrightarrow>
   childLookup r (Trigger (Info command)) tok
     = map_of (registeredChildren u r (Trigger (Info command))) tok"
  by (simp add: childLookup_def registeredChildren_def)

text \<open>The failing case, evaluated step by step.\<close>

lemma mixedCaseRegistry_eq:
  "mixedCaseRegistry u =
     \<lparr>commands = [''config'' \<mapsto> upperConfigCommand],
      childCommands = [''config'' \<mapsto> [(''set'', upperSetCommand)]],
      commandAliases = [''c'' \<mapsto> ''config'', ''config'' \<mapsto> ''Config''],
      slashCommands = Map.empty, commandsGC = 0\<rparr>"
  by (simp add: mixedCaseRegistry_def AddChildCommand_def AddCommand_def emptyRegistry_def
      upperConfigCommand_def upperSetCommand_def zeroCommandInfo_def lower_config childrenOf_def
      Let_def fun_upd_twist)

text \<open>
  Claim C5 (a first token that matches a child of the parent invokes that child), at
  the parent \<open>Config\<close> with the child \<open>set\<close> registered for it, reached through the
  alias \<open>c\<close>. The child is stored among the children of \<open>Config\<close>, at the key \<open>config\<close>;
  the message \<open>c set foo\<close> resolves to the parent; \<open>handleChildCommand\<close> reads the child
  table at \<open>Config\<close>, finds nothing, and calls the parent's handler with nil arguments
  instead of the child \<open>set\<close> with the remainder \<open>foo\<close>.
\<close>

theorem child_of_mixed_case_parent_not_invoked:
  "map_of (registeredChildren u (mixedCaseRegistry u) ''Config'') ''set'' = Some upperSetCommand
   \<and> lookupCommand (mixedCaseRegistry u) ''c'' = Some upperConfigCommand
   \<and> childLookup (mixedCaseRegistry u) (Trigger (Info upperConfigCommand)) ''set'' = None
   \<and> handleChildCommand (exampleEnv alwaysReturns) (mixedCaseRegistry u) ''set foo''
        upperConfigCommand (textMessage ''c set foo'') exampleGuild
      = ([Call 2 \<lparr>ctx_Guild = exampleGuild, Cmd = Info upperConfigCommand, Args = None,
                  ctx_Message = textMessage ''c set foo''\<rparr>], Inr ())
   \<and> commandHandler (exampleEnv alwaysReturns) (textMessage ''c set foo'') (mixedCaseRegistry u)
      = ([Call 2 \<lparr>ctx_Guild = exampleGuild, Cmd = Info upperConfigCommand, Args = None,
                  ctx_Message = textMessage ''c set foo''\<rparr>], Inr (), mixedCaseRegistry u)"
proof -
  have trig: "Trigger (Info upperConfigCommand) = ''Config''"
    "IsParent (Info upperConfigCommand)" "Function upperConfigCommand = Some 2"
    "IsTyping (Info upperConfigCommand) = False"
    by (simp_all add: upperConfigCommand_def zeroCommandInfo_def)
  have reg: "map_of (registeredChildren u (mixedCaseRegistry u) ''Config'') ''set''
      = Some upperSetCommand"
    by (simp add: registeredChildren_def childrenOf_def mixedCaseRegistry_eq lower_config)
  have look: "lookupCommand (mixedCaseRegistry u) ''c'' = Some upperConfigCommand"
    by (simp add: lookupCommand_def aliasTarget_def mixedCaseRegistry_eq)
  have miss: "childLookup (mixedCaseRegistry u) (Trigger (Info upperConfigCommand)) ''set'' = None"
    by (simp add: childLookup_def childrenOf_def mixedCaseRegistry_eq trig)
  have cut: "SplitN2 ''set foo'' = [''set'', ''foo'']"
    by (simp add: SplitN2_def)
  have child: "handleChildCommand (exampleEnv alwaysReturns) (mixedCaseRegistry u) ''set foo''
        upperConfigCommand (textMessage ''c set foo'') exampleGuild
      = ([Call 2 \<lparr>ctx_Guild = exampleGuild, Cmd = Info upperConfigCommand, Args = None,
                  ctx_Message = textMessage ''c set foo''\<rparr>], Inr ())"
    by (simp add: handleChildCommand_def cut miss [unfolded trig] trig invoke_example)
  have token: "ExtractCommand (exampleEnv alwaysReturns) exampleGuild ''c set foo''
      = (Some ''c'', Some ''set foo'')"
    by (simp add: exampleEnv_def asciiLower_examples)
  have env: "StateChannel (exampleEnv alwaysReturns) ''c1'' = Some ''c1''"
    "selfID (exampleEnv alwaysReturns) = ''bot''"
    "GetGuild (exampleEnv alwaysReturns) ''g1'' = exampleGuild"
    by (simp_all add: exampleEnv_def exampleGuild_def)
  have msg: "msg_ChannelID (textMessage ''c set foo'') = ''c1''"
    "msg_Author (textMessage ''c set foo'') = ''u1''"
    "msg_GuildID (textMessage ''c set foo'') = ''g1''"
    "msg_Content (textMessage ''c set foo'') = ''c set foo''"
    by (simp_all add: textMessage_def)
  have run: "commandHandler (exampleEnv alwaysReturns) (textMessage ''c set foo'')
        (mixedCaseRegistry u)
      = ([Call 2 \<lparr>ctx_Guild = exampleGuild, Cmd = Info upperConfigCommand, Args = None,
                  ctx_Message = textMessage ''c set foo''\<rparr>], Inr (), mixedCaseRegistry u)"
    by (simp add: commandHandler_def env msg token look trig commandBody_def child
        handleCommandError_def)
  from reg look miss child run show ?thesis by simp
qed

section \<open>Slash-command registration\<close>










text \<open>
  A parent whose trigger is not written in lower case does not find its children: the
  synthesis reads the child table at the trigger as written.
\<close>

lemma AddSlashCommand_mixed_case_parent:
  "registeredChildren u (mixedCaseRegistry u) ''Config'' = [(''set'', upperSetCommand)]
   \<and> AddSlashCommand u exampleConsts exampleCreate
        (zeroCommandInfo\<lparr>Trigger := ''Config'', IsParent := True, IsChild := True\<rparr>)
        (mixedCaseRegistry u)
      = Inr ((mixedCaseRegistry u)\<lparr>slashCommands :=
               [''config'' \<mapsto> \<lparr>cmd_Name = ''Config'', cmd_Description = [],
                                   Options = Some []\<rparr>]\<rparr>)"
  by (simp add: registeredChildren_def childrenOf_def mixedCaseRegistry_eq lower_config
      AddSlashCommand_def createChatInputSubCmdStruct_def zeroCommandInfo_def)

section \<open>Schema synthesis: the fallback type\<close>

text \<open>
  The fallback reads the table at the literal \<open>String\<close>. It yields the string option
  type when the constant \<open>String\<close> has exactly that value, and the zero option type when
  no mapped constant has it.
\<close>

lemma sType_String_literal:
  "distinctConsts c \<Longrightarrow> String_tag c = ''String'' \<Longrightarrow> applicationCommandTypes c tg = None \<Longrightarrow>
   sType c tg = ApplicationCommandOptionString"
  by (auto simp: sType_def applicationCommandTypes_def distinctConsts_def)

lemma sType_zero:
  "''String'' \<notin> {Int_tag c, String_tag c, Channel_tag c, User_tag c, Role_tag c,
                  Boolean_tag c, SubCmd_tag c, SubCmdGrp_tag c} \<Longrightarrow>
   applicationCommandTypes c tg = None \<Longrightarrow> sType c tg = 0"
  by (auto simp: sType_def applicationCommandTypes_def split: option.splits if_splits)

text \<open>
  Claim C7 (an unmapped tag falls back to the string option type), at a command with
  one argument tagged \<open>time\<close>, under the lower-case constants: the table has no entry
  for \<open>time\<close> and none for the literal \<open>String\<close>, so the synthesized option has the
  zero type, which is not \<open>ApplicationCommandOptionString\<close>.
\<close>

theorem unmapped_tag_zero_type:
  "applicationCommandTypes exampleConsts ''time'' = None
   \<and> createApplicationCommandStruct exampleConsts
        (zeroCommandInfo\<lparr>Trigger := ''remind'', Arguments := Some (oneArgument ''time'')\<rparr>)
      = Inr \<lparr>cmd_Name = ''remind'', cmd_Description = [],
             Options = Some [Some \<lparr>opt_Type = 0, opt_Name = ''key'', opt_Description = ''a key'',
                                    opt_Required = True, opt_Choices = None\<rparr>]\<rparr>
   \<and> (0 :: ApplicationCommandOptionType) \<noteq> ApplicationCommandOptionString"
  by (simp add: createApplicationCommandStruct_def zeroCommandInfo_def oneArgument_def Keys_def
      Get_def optionStruct_def sType_def applicationCommandTypes_def exampleConsts_def
      ApplicationCommandOptionString_def)

section \<open>Schema synthesis: parents\<close>

lemma firstTypeGuard_nil:
  "Arguments info = None \<Longrightarrow> firstTypeGuard info = Inl (RuntimeError NilDereference)"
  by (simp add: firstTypeGuard_def)

lemma firstTypeGuard_empty:
  "Arguments info = Some om \<Longrightarrow> Keys om = [] \<Longrightarrow>
   firstTypeGuard info = Inl (RuntimeError IndexOutOfRange)"
  by (simp add: firstTypeGuard_def)

lemma fillOptions_panics:
  "(k, v) \<in> set kids \<Longrightarrow> firstTypeGuard (Info v) = Inl q \<Longrightarrow>
   \<exists>p. fillOptions c create kids (os, pos) = Inl p"
proof (induction kids arbitrary: os pos)
  case Nil
  then show ?case by simp
next
  case (Cons kv kids)
  obtain k' v' where kv: "kv = (k', v')" by (cases kv)
  show ?case
  proof (cases "(k, v) = (k', v')")
    case True
    with Cons.prems kv show ?thesis by simp
  next
    case False
    with Cons.prems kv have "(k, v) \<in> set kids" by auto
    from Cons.IH [OF this Cons.prems(2)]
    have "\<And>os pos. \<exists>p. fillOptions c create kids (os, pos) = Inl p" .
    then show ?thesis
      unfolding kv by (simp split: sum.splits)
  qed
qed

lemma fillOptions_inv:
  "fillOptions c create kids (os, pos) = Inr (os', pos') \<Longrightarrow>
     length os' = length os
   \<and> pos' + length (filter (skippedChild c) kids) = pos + length kids
   \<and> (\<forall>i. pos' \<le> i \<longrightarrow> os' ! i = os ! i)"
proof (induction kids arbitrary: os pos)
  case Nil
  then show ?case by simp
next
  case (Cons kv kids)
  obtain k v where kv: "kv = (k, v)" by (cases kv)
  from Cons.prems obtain tg where tg: "firstTypeGuard (Info v) = Inr tg"
    unfolding kv by (auto split: sum.splits)
  show ?case
  proof (cases "tg = SubCmdGrp_tag c")
    case True
    with Cons.prems tg have "fillOptions c create kids (os, pos) = Inr (os', pos')"
      unfolding kv by simp
    moreover from True tg have "skippedChild c (k, v)"
      by (simp add: skippedChild_def)
    ultimately show ?thesis
      using Cons.IH [of os pos] unfolding kv by simp
  next
    case False
    with Cons.prems tg obtain opt where
      opt: "create (Info v) = Inr opt" and lt: "pos < length os"
      and rest: "fillOptions c create kids (os[pos := opt], pos + 1) = Inr (os', pos')"
      unfolding kv by (auto split: sum.splits if_splits)
    have le: "length (filter (skippedChild c) kids) \<le> length kids"
      by (rule length_filter_le)
    from Cons.IH [OF rest]
    have l: "length os' = length os"
      and p: "pos' + length (filter (skippedChild c) kids) = pos + 1 + length kids"
      and k: "\<forall>i. pos' \<le> i \<longrightarrow> os' ! i = os[pos := opt] ! i"
      by simp_all
    from p le have "pos < pos'" by arith
    with k have "\<forall>i. pos' \<le> i \<longrightarrow> os' ! i = os ! i" by simp
    moreover from False tg have "\<not> skippedChild c (k, v)"
      by (simp add: skippedChild_def)
    ultimately show ?thesis
      using l p unfolding kv by simp
  qed
qed

text \<open>
  Claim C9. \<open>createChatInputSubCmdStruct\<close> panics as soon as one child of the map has a
  nil argument map or an argument map without keys; for a single such child the panic is
  a nil dereference and an index out of range. When the call returns, the option slice
  has one entry for each child, and as many trailing entries as there are children
  tagged as subcommand groups are nil.
\<close>

theorem createChatInputSubCmdStruct_panics_and_padding:
  "((k, v) \<in> set childCmds \<longrightarrow>
      (Arguments (Info v) = None \<or> Arguments (Info v) = Some []) \<longrightarrow>
      (\<exists>p. createChatInputSubCmdStruct c create info childCmds = Inl p))
   \<and> (Arguments (Info v) = None \<longrightarrow>
        createChatInputSubCmdStruct c create info [(k, v)] = Inl (RuntimeError NilDereference))
   \<and> (Arguments (Info v) = Some [] \<longrightarrow>
        createChatInputSubCmdStruct c create info [(k, v)] = Inl (RuntimeError IndexOutOfRange))
   \<and> (createChatInputSubCmdStruct c create info childCmds = Inr st \<longrightarrow>
        (\<exists>os. Options st = Some os \<and> length os = length childCmds
           \<and> (\<forall>i. length childCmds - length (filter (skippedChild c) childCmds) \<le> i
                  \<longrightarrow> i < length childCmds \<longrightarrow> os ! i = None)))"
proof (intro conjI impI)
  assume mem: "(k, v) \<in> set childCmds"
    and bad: "Arguments (Info v) = None \<or> Arguments (Info v) = Some []"
  from bad have "\<exists>q. firstTypeGuard (Info v) = Inl q"
    by (auto simp: firstTypeGuard_def Keys_def)
  then obtain q where "firstTypeGuard (Info v) = Inl q" ..
  from fillOptions_panics [OF mem this]
  obtain p where "fillOptions c create childCmds (replicate (length childCmds) None, 0) = Inl p"
    by blast
  then show "\<exists>p. createChatInputSubCmdStruct c create info childCmds = Inl p"
    by (simp add: createChatInputSubCmdStruct_def)
next
  assume "Arguments (Info v) = None"
  then show "createChatInputSubCmdStruct c create info [(k, v)] = Inl (RuntimeError NilDereference)"
    by (simp add: createChatInputSubCmdStruct_def firstTypeGuard_def)
next
  assume "Arguments (Info v) = Some []"
  then show "createChatInputSubCmdStruct c create info [(k, v)] = Inl (RuntimeError IndexOutOfRange)"
    by (simp add: createChatInputSubCmdStruct_def firstTypeGuard_def Keys_def)
next
  assume ret: "createChatInputSubCmdStruct c create info childCmds = Inr st"
  then obtain os pos where
    fill: "fillOptions c create childCmds (replicate (length childCmds) None, 0) = Inr (os, pos)"
    and st: "st = \<lparr>cmd_Name = Trigger info, cmd_Description = Description info, Options = Some os\<rparr>"
    by (auto simp: createChatInputSubCmdStruct_def split: sum.splits prod.splits)
  from fillOptions_inv [OF fill]
  have len: "length os = length childCmds"
    and pos: "pos + length (filter (skippedChild c) childCmds) = length childCmds"
    and keep: "\<forall>i. pos \<le> i \<longrightarrow> os ! i = replicate (length childCmds) None ! i"
    by simp_all
  have "\<forall>i. length childCmds - length (filter (skippedChild c) childCmds) \<le> i
          \<longrightarrow> i < length childCmds \<longrightarrow> os ! i = None"
  proof (intro allI impI)
    fix i
    assume lo: "length childCmds - length (filter (skippedChild c) childCmds) \<le> i"
      and hi: "i < length childCmds"
    from pos lo have "pos \<le> i" by arith
    with keep have "os ! i = replicate (length childCmds) None ! i" by simp
    with hi show "os ! i = None" by simp
  qed
  with st len
  show "\<exists>os. Options st = Some os \<and> length os = length childCmds
           \<and> (\<forall>i. length childCmds - length (filter (skippedChild c) childCmds) \<le> i
                  \<longrightarrow> i < length childCmds \<longrightarrow> os ! i = None)"
    by simp
qed

theorem createChatInputSubCmdStruct_panics_and_padding_witness:
  "(''bare'', bareCommand) \<in> set [(''set'', setCommand), (''bare'', bareCommand)]
   \<and> Arguments (Info bareCommand) = None
   \<and> createChatInputSubCmdStruct exampleConsts exampleCreate (configInfo False)
        [(''set'', setCommand), (''bare'', bareCommand)] = Inl (RuntimeError NilDereference)
   \<and> createChatInputSubCmdStruct exampleConsts exampleCreate (configInfo False)
        [(''bare'', bareCommand)] = Inl (RuntimeError NilDereference)
   \<and> createChatInputSubCmdStruct exampleConsts exampleCreate (configInfo False)
        [(''group'', groupCommand), (''set'', setCommand)]
      = Inr \<lparr>cmd_Name = ''config'', cmd_Description = [],
             Options = Some [Some \<lparr>opt_Type = ApplicationCommandOptionSubCommand,
                                    opt_Name = ''set'', opt_Description = [],
                                    opt_Required = False, opt_Choices = None\<rparr>,
                             None]\<rparr>
   \<and> length (filter (skippedChild exampleConsts)
         [(''group'', groupCommand), (''set'', setCommand)]) = 1"
proof -
  have mem: "(''bare'', bareCommand) \<in> set [(''set'', setCommand), (''bare'', bareCommand)]"
    by simp
  have nil: "Arguments (Info bareCommand) = None"
    by (simp add: bareCommand_def zeroCommandInfo_def)
  have ftg: "firstTypeGuard (Info setCommand) = Inr ''string''"
    "firstTypeGuard (Info groupCommand) = Inr ''subcmdgrp''"
    "firstTypeGuard (Info bareCommand) = Inl (RuntimeError NilDereference)"
    by (simp_all add: firstTypeGuard_def setCommand_def groupCommand_def bareCommand_def
        childInfo_def zeroCommandInfo_def oneArgument_def Keys_def Get_def)
  have tag: "SubCmdGrp_tag exampleConsts = ''subcmdgrp''"
    by (simp add: exampleConsts_def)
  have cr: "exampleCreate (Info setCommand)
      = Inr (Some \<lparr>opt_Type = ApplicationCommandOptionSubCommand, opt_Name = ''set'',
                    opt_Description = [], opt_Required = False, opt_Choices = None\<rparr>)"
    by (simp add: exampleCreate_def setCommand_def childInfo_def zeroCommandInfo_def)
  have nm: "Trigger (configInfo False) = ''config''" "Description (configInfo False) = []"
    by (simp_all add: configInfo_def zeroCommandInfo_def)
  have two: "createChatInputSubCmdStruct exampleConsts exampleCreate (configInfo False)
        [(''set'', setCommand), (''bare'', bareCommand)] = Inl (RuntimeError NilDereference)"
    by (simp add: createChatInputSubCmdStruct_def ftg tag cr)
  have ok: "createChatInputSubCmdStruct exampleConsts exampleCreate (configInfo False)
        [(''group'', groupCommand), (''set'', setCommand)]
      = Inr \<lparr>cmd_Name = ''config'', cmd_Description = [],
             Options = Some [Some \<lparr>opt_Type = ApplicationCommandOptionSubCommand,
                                    opt_Name = ''set'', opt_Description = [],
                                    opt_Required = False, opt_Choices = None\<rparr>,
                             None]\<rparr>"
    by (simp add: createChatInputSubCmdStruct_def ftg tag cr nm)
  have sk: "length (filter (skippedChild exampleConsts)
         [(''group'', groupCommand), (''set'', setCommand)]) = 1"
    by (simp add: skippedChild_def ftg tag)
  note inst = createChatInputSubCmdStruct_panics_and_padding
    [where k = "''bare''" and v = bareCommand and c = exampleConsts and create = exampleCreate
       and info = "configInfo False"
       and childCmds = "[(''set'', setCommand), (''bare'', bareCommand)]"]
  from inst [THEN conjunct2, THEN conjunct1, rule_format, OF nil]
  have one: "createChatInputSubCmdStruct exampleConsts exampleCreate (configInfo False)
        [(''bare'', bareCommand)] = Inl (RuntimeError NilDereference)" .
  from mem nil two one ok sk show ?thesis by simp
qed

section \<open>Component interactions\<close>

text \<open>
  Claim C10. When the identifier of a component interaction is not registered, the
  direct call of \<open>handleInteractionError\<close> does nothing and returns; calling the zero
  handler is a nil dereference; and the run is exactly what the deferred recovery does
  with that panic. It differs from the run of a registered handler that panics with
  the same value only by that handler's call.
\<close>

theorem handleMessageComponents_unregistered:
  "hs (CustomID i) = None \<Longrightarrow>
     handleInteractionError env i None = ([], Inr ())
   \<and> invokeInteraction env (ih_Function zeroInteractionHandler)
        \<lparr>ictx_Info = ih_Info zeroInteractionHandler, ictx_Interaction = i\<rparr>
       = ([], Inl (RuntimeError NilDereference))
   \<and> handleMessageComponents env hs i
       = handleInteractionError env i (Some (RuntimeError NilDereference))
   \<and> (\<forall>h f. interactionHandler env f \<lparr>ictx_Info = ih_Info h, ictx_Interaction = i\<rparr>
                 = Some (RuntimeError NilDereference)
          \<longrightarrow> ih_Function h = Some f
          \<longrightarrow> handleMessageComponents env (hs(CustomID i \<mapsto> h)) i
                = (CallInteraction f \<lparr>ictx_Info = ih_Info h, ictx_Interaction = i\<rparr>
                     # fst (handleMessageComponents env hs i),
                   snd (handleMessageComponents env hs i)))"
  by (auto simp: handleMessageComponents_def runComponent_def invokeInteraction_def
      zeroInteractionHandler_def handleInteractionError_def SendErrorReport_def split: prod.splits)



theorem handleMessageComponents_unregistered_witness:
  "Map.empty (CustomID exampleInteraction) = (None :: InteractionHandler option)
   \<and> handleMessageComponents (exampleEnv alwaysReturns) Map.empty exampleInteraction
      = ([LogWarning ''Recovering from panic: %s'',
          LogWarning ''Sending Error report to admins'',
          ErrorReport ''g1'' ''c1'' ''u1'' (RuntimeError NilDereference),
          ResponseEdit ''error executing command'',
          MessageDelete ''c1'' ''notice''], Inr ())
   \<and> handleMessageComponents (exampleEnv (alwaysPanics (RuntimeError NilDereference)))
        [''btn'' \<mapsto> \<lparr>ih_Info = ''btn'', ih_Function = Some 7\<rparr>] exampleInteraction
      = ([CallInteraction 7 \<lparr>ictx_Info = ''btn'', ictx_Interaction = exampleInteraction\<rparr>,
          LogWarning ''Recovering from panic: %s'',
          LogWarning ''Sending Error report to admins'',
          ErrorReport ''g1'' ''c1'' ''u1'' (RuntimeError NilDereference),
          ResponseEdit ''error executing command'',
          MessageDelete ''c1'' ''notice''], Inr ())"
proof -
  have none: "Map.empty (CustomID exampleInteraction) = (None :: InteractionHandler option)"
    by simp
  have recovered: "handleInteractionError (exampleEnv outcome) exampleInteraction
          (Some (RuntimeError NilDereference))
      = ([LogWarning ''Recovering from panic: %s'',
          LogWarning ''Sending Error report to admins'',
          ErrorReport ''g1'' ''c1'' ''u1'' (RuntimeError NilDereference),
          ResponseEdit ''error executing command'',
          MessageDelete ''c1'' ''notice''], Inr ())" for outcome
    by (simp add: handleInteractionError_def SendErrorReport_def exampleEnv_def asciiLower_examples exampleInteraction_def
        deleteNotice_def)
  note quiet = handleMessageComponents_unregistered
    [where hs = Map.empty and i = exampleInteraction and env = "exampleEnv alwaysReturns",
     OF none]
  from quiet [THEN conjunct2, THEN conjunct2, THEN conjunct1]
  have first: "handleMessageComponents (exampleEnv alwaysReturns) Map.empty exampleInteraction
      = ([LogWarning ''Recovering from panic: %s'',
          LogWarning ''Sending Error report to admins'',
          ErrorReport ''g1'' ''c1'' ''u1'' (RuntimeError NilDereference),
          ResponseEdit ''error executing command'',
          MessageDelete ''c1'' ''notice''], Inr ())"
    by (simp add: recovered)
  note loud = handleMessageComponents_unregistered
    [where hs = Map.empty and i = exampleInteraction
       and env = "exampleEnv (alwaysPanics (RuntimeError NilDereference))", OF none]
  have panics: "interactionHandler (exampleEnv (alwaysPanics (RuntimeError NilDereference))) 7
        \<lparr>ictx_Info = ih_Info \<lparr>ih_Info = ''btn'', ih_Function = Some 7\<rparr>,
         ictx_Interaction = exampleInteraction\<rparr> = Some (RuntimeError NilDereference)"
    by (simp add: exampleEnv_def asciiLower_examples alwaysPanics_def)
  have fn: "ih_Function \<lparr>ih_Info = ''btn'', ih_Function = Some 7\<rparr> = Some 7"
    by simp
  have cid: "CustomID exampleInteraction = ''btn''"
    by (simp add: exampleInteraction_def)
  from loud [THEN conjunct2, THEN conjunct2, THEN conjunct1]
  have unreg: "handleMessageComponents (exampleEnv (alwaysPanics (RuntimeError NilDereference)))
        Map.empty exampleInteraction
      = ([LogWarning ''Recovering from panic: %s'',
          LogWarning ''Sending Error report to admins'',
          ErrorReport ''g1'' ''c1'' ''u1'' (RuntimeError NilDereference),
          ResponseEdit ''error executing command'',
          MessageDelete ''c1'' ''notice''], Inr ())"
    by (simp add: recovered)
  from loud [THEN conjunct2, THEN conjunct2, THEN conjunct2, rule_format, OF panics fn]
  have second: "handleMessageComponents (exampleEnv (alwaysPanics (RuntimeError NilDereference)))
        [''btn'' \<mapsto> \<lparr>ih_Info = ''btn'', ih_Function = Some 7\<rparr>] exampleInteraction
      = ([CallInteraction 7 \<lparr>ictx_Info = ''btn'', ictx_Interaction = exampleInteraction\<rparr>,
          LogWarning ''Recovering from panic: %s'',
          LogWarning ''Sending Error report to admins'',
          ErrorReport ''g1'' ''c1'' ''u1'' (RuntimeError NilDereference),
          ResponseEdit ''error executing command'',
          MessageDelete ''c1'' ''notice''], Inr ())"
    by (simp add: unreg cid)
  from none first second show ?thesis by simp
qed

end
